(* ===== verification/Cue_Prelude.thy ===== *)
theory Cue_Prelude
  imports Main "HOL-Library.Word"
begin

text \<open>
  Shared vocabulary of the cue-sheet development.  The program (src/src/main.rs) builds
  all of its output with Rust's formatting machinery: \<open>{}\<close> on an unsigned integer
  prints its decimal digits, \<open>{:02}\<close> pads them with zeros to width two, \<open>{}\<close> on an
  \<open>i32\<close> puts a minus sign in front of negative values, and \<open>writeln!\<close> on a
  \<open>String\<close> appends the formatted line and a newline.  This theory models those
  primitives over HOL strings (\<open>char list\<close>, one \<open>char\<close> per UTF-8 byte), names the
  machine type \<open>u32\<close>, and proves the facts the component theories share: every
  printed number consists of decimal digits, padding never truncates, and printing is
  inverted by the decimal reader \<open>parse_dec\<close> (the round trip).
\<close>

named_theorems fmt_eval \<open>unfolding rules of the formatting primitives, for evaluation\<close>

type_synonym u32 = "32 word"

subsection \<open>Rust formatting primitives\<close>

definition digit_char :: "nat \<Rightarrow> char" where
  [fmt_eval]: "digit_char d = char_of (48 + d)"

text \<open>\<open>format!("{}", n)\<close> for an unsigned integer: its decimal digits, no leading zeros.\<close>

fun dec_string :: "nat \<Rightarrow> string" where
  "dec_string n =
     (if n < 10 then [digit_char n] else dec_string (n div 10) @ [digit_char (n mod 10)])"

declare dec_string.simps [simp del, fmt_eval]

text \<open>\<open>format!("{:0w}", n)\<close>: zero-filled to at least \<open>w\<close> characters, never truncated.\<close>

definition zero_pad :: "nat \<Rightarrow> nat \<Rightarrow> string" where
  [fmt_eval]: "zero_pad w n = replicate (w - length (dec_string n)) (CHR ''0'') @ dec_string n"

text \<open>\<open>format!("{}", i)\<close> for a signed integer.\<close>

definition int_string :: "int \<Rightarrow> string" where
  [fmt_eval]: "int_string i = (if i < 0 then ''-'' @ dec_string (nat (- i)) else dec_string (nat i))"

text \<open>\<open>format!("{:+0w}", i)\<close>: the sign is always written and counts towards the width.\<close>

definition signed_zero_pad :: "nat \<Rightarrow> int \<Rightarrow> string" where
  [fmt_eval]: "signed_zero_pad w i =
     (if i < 0 then ''-'' else ''+'') @ zero_pad (w - 1) (nat \<bar>i\<bar>)"

text \<open>\<open>writeln!(s, ...)\<close> on a \<open>String\<close>: the line and a newline are appended.\<close>

definition nl :: string where
  [fmt_eval]: "nl = [CHR 0x0A]"

definition writeln :: "string \<Rightarrow> string \<Rightarrow> string" where
  [fmt_eval]: "writeln s line = s @ line @ nl"

text \<open>A double-quote character, as the source writes it with \<open>\"\<close>.\<close>

definition dq :: string where
  [fmt_eval]: "dq = [CHR 0x22]"

text \<open>\<open>[String]::join(sep)\<close>: the pieces with the separator between neighbours.\<close>

fun join_sep :: "string \<Rightarrow> string list \<Rightarrow> string" where
  "join_sep sep [] = []"
| "join_sep sep [x] = x"
| "join_sep sep (x # y # xs) = x @ sep @ join_sep sep (y # xs)"

text \<open>\<open>Option::unwrap_or_default\<close> on a string and on a number.\<close>

definition str_or_default :: "string option \<Rightarrow> string" where
  [fmt_eval]: "str_or_default x = (case x of None \<Rightarrow> [] | Some s \<Rightarrow> s)"

definition u32_or_default :: "u32 option \<Rightarrow> u32" where
  [fmt_eval]: "u32_or_default x = (case x of None \<Rightarrow> 0 | Some n \<Rightarrow> n)"

subsection \<open>Panics\<close>

text \<open>
  Every \<open>unwrap()\<close> of the program is a possible panic, which ends the process.  A panic
  is an error value naming what was unwrapped.
\<close>

datatype panic =
    Unwrap_None string  \<comment> \<open>\<open>Option::unwrap\<close> on \<open>None\<close>\<close>
  | Unwrap_Err string   \<comment> \<open>\<open>Result::unwrap\<close> on \<open>Err\<close>\<close>

text \<open>A string in double quotes, as \<open>"\"{}\""\<close> formats it.\<close>

definition quoted :: "string \<Rightarrow> string" where
  [fmt_eval]: "quoted s = dq @ s @ dq"

text \<open>A text made of lines, each ended by a newline: what successive \<open>writeln!\<close> calls build.\<close>

definition unlines :: "string list \<Rightarrow> string" where
  [fmt_eval]: "unlines ls = concat (map (\<lambda>l. l @ nl) ls)"

subsection \<open>Reading decimals back\<close>

definition digit_val :: "char \<Rightarrow> nat option" where
  [fmt_eval]: "digit_val c =
     (let k = (of_char c :: nat) in if 48 \<le> k \<and> k \<le> 57 then Some (k - 48) else None)"

fun parse_dec_acc :: "nat \<Rightarrow> string \<Rightarrow> nat option" where
  "parse_dec_acc acc [] = Some acc"
| "parse_dec_acc acc (c # cs) =
     (case digit_val c of None \<Rightarrow> None | Some d \<Rightarrow> parse_dec_acc (10 * acc + d) cs)"

definition parse_dec :: "string \<Rightarrow> nat option" where
  [fmt_eval]: "parse_dec s = (if s = [] then None else parse_dec_acc 0 s)"

declare parse_dec_acc.simps [fmt_eval]

subsection \<open>Facts shared by the components\<close>

lemma digit_val_digit_char [simp]: "d < 10 \<Longrightarrow> digit_val (digit_char d) = Some d"
  by (simp add: digit_val_def digit_char_def)

lemma dec_string_not_Nil [simp]: "dec_string n \<noteq> []"
  by (subst dec_string.simps) simp

lemma dec_string_small: "n < 10 \<Longrightarrow> dec_string n = [digit_char n]"
  by (subst dec_string.simps) simp

lemma dec_string_large:
  "\<not> n < 10 \<Longrightarrow> dec_string n = dec_string (n div 10) @ [digit_char (n mod 10)]"
  by (subst dec_string.simps) simp

lemma dec_string_digits: "set (dec_string n) \<subseteq> digit_char ` {..<10}"
proof (induction n rule: dec_string.induct)
  case (1 n)
  then show ?case
    by (cases "n < 10") (auto simp: dec_string_small dec_string_large)
qed

lemma parse_dec_acc_append:
  "parse_dec_acc acc (xs @ ys) =
     (case parse_dec_acc acc xs of None \<Rightarrow> None | Some a \<Rightarrow> parse_dec_acc a ys)"
  by (induction acc xs rule: parse_dec_acc.induct) (auto split: option.splits)

lemma parse_dec_acc_dec_string: "parse_dec_acc acc (dec_string n) = Some (acc * 10 ^ length (dec_string n) + n)"
proof (induction n arbitrary: acc rule: dec_string.induct)
  case (1 n)
  show ?case
  proof (cases "n < 10")
    case True
    then show ?thesis by (simp add: dec_string_small)
  next
    case False
    have eq: "dec_string n = dec_string (n div 10) @ [digit_char (n mod 10)]"
      using False by (rule dec_string_large)
    have "parse_dec_acc acc (dec_string (n div 10)) = Some (acc * 10 ^ length (dec_string (n div 10)) + n div 10)"
      using "1.IH" False by blast
    then have "parse_dec_acc acc (dec_string n) =
        Some (10 * (acc * 10 ^ length (dec_string (n div 10)) + n div 10) + n mod 10)"
      by (simp add: eq parse_dec_acc_append)
    also have "\<dots> = Some (acc * 10 ^ length (dec_string n) + n)"
      by (simp add: eq algebra_simps)
    finally show ?thesis .
  qed
qed

lemma parse_dec_acc_zeros [simp]: "parse_dec_acc 0 (replicate k (CHR ''0'') @ s) = parse_dec_acc 0 s"
  by (induction k) (simp_all add: digit_val_def)

lemma length_zero_pad: "length (zero_pad w n) = max w (length (dec_string n))"
  by (simp add: zero_pad_def)

lemma zero_pad_not_Nil [simp]: "zero_pad w n \<noteq> []"
  by (simp add: zero_pad_def)

lemma parse_dec_zero_pad [simp]: "parse_dec (zero_pad w n) = Some n"
  by (simp add: parse_dec_def zero_pad_def parse_dec_acc_dec_string)

lemma parse_dec_dec_string [simp]: "parse_dec (dec_string n) = Some n"
  using parse_dec_zero_pad [of 0 n] by (simp add: zero_pad_def)

lemma length_dec_string_small: "n < 10 \<Longrightarrow> length (dec_string n) = 1"
  by (simp add: dec_string_small)

lemma length_dec_string_two: "10 \<le> n \<Longrightarrow> n < 100 \<Longrightarrow> length (dec_string n) = 2"
  by (simp add: dec_string_large dec_string_small)

lemma zero_pad2_length: "n < 100 \<Longrightarrow> length (zero_pad 2 n) = 2"
  by (cases "n < 10") (simp_all add: length_zero_pad length_dec_string_small length_dec_string_two)

lemma colon_not_digit_char: "digit_char d \<noteq> CHR '':''" if "d < 10"
  using that by (simp add: digit_char_def char_of_eq_iff take_bit_eq_mod)

lemma colon_not_digit [simp]: "CHR '':'' \<notin> set (dec_string n)"
proof
  assume "CHR '':'' \<in> set (dec_string n)"
  then obtain d where "d < 10" and "CHR '':'' = digit_char d"
    using dec_string_digits [of n] by auto
  then show False
    using colon_not_digit_char [of d] by simp
qed

lemma colon_not_in_zero_pad [simp]: "CHR '':'' \<notin> set (zero_pad w n)"
  by (simp add: zero_pad_def)

lemma space_not_digit_char: "digit_char d \<noteq> CHR '' ''" if "d < 10"
  using that by (simp add: digit_char_def char_of_eq_iff take_bit_eq_mod)

lemma space_not_in_zero_pad [simp]: "CHR '' '' \<notin> set (zero_pad w n)"
proof
  assume "CHR '' '' \<in> set (zero_pad w n)"
  then have "CHR '' '' \<in> set (dec_string n)"
    by (auto simp: zero_pad_def)
  then obtain d where "d < 10" and "CHR '' '' = digit_char d"
    using dec_string_digits [of n] by auto
  then show False
    using space_not_digit_char [of d] by simp
qed

lemma zero_pad_inj: "zero_pad w a = zero_pad w b \<longleftrightarrow> a = b"
  by (metis option.inject parse_dec_zero_pad)

lemma append_sep_eq_iff:
  assumes "c \<notin> set x" and "c \<notin> set y"
  shows "a @ c # x = b @ c # y \<longleftrightarrow> a = b \<and> x = y"
proof
  assume eq: "a @ c # x = b @ c # y"
  have tw: "takeWhile (\<lambda>ch. ch \<noteq> c) (rev z @ c # rev u) = rev z" if "c \<notin> set z" for z u
    using that takeWhile_append2 [of "rev z" "\<lambda>ch. ch \<noteq> c" "c # rev u"] by auto
  have "rev x = rev y"
    using tw [OF assms(1), of a] tw [OF assms(2), of b] eq
    by (metis rev.simps(2) rev_append append_assoc append_Cons append_Nil)
  then have "x = y" by simp
  with eq show "a = b \<and> x = y" by simp
qed simp

lemma join_sep_Cons: "xs \<noteq> [] \<Longrightarrow> join_sep sep (x # xs) = x @ sep @ join_sep sep xs"
  by (cases xs) simp_all

lemma writeln_unlines [simp]: "writeln (unlines ls) l = unlines (ls @ [l])"
  by (simp add: writeln_def unlines_def)

lemma unlines_Nil [simp]: "unlines [] = []"
  by (simp add: unlines_def)

lemma unlines_append: "unlines (xs @ ys) = unlines xs @ unlines ys"
  by (simp add: unlines_def)

lemma unat_sum_list_wrap:
  "unat (sum_list ws) = sum_list (map unat ws) mod 2 ^ LENGTH('a)" for ws :: "'a::len word list"
proof (induction ws)
  case Nil
  then show ?case by simp
next
  case (Cons w ws)
  have "unat (w + sum_list ws) = (unat w + unat (sum_list ws)) mod 2 ^ LENGTH('a)"
    by (simp add: unat_word_ariths(1))
  then show ?case by (simp add: Cons.IH mod_add_right_eq)
qed

lemma unat_sum_list_exact:
  "sum_list (map unat ws) < 2 ^ LENGTH('a) \<Longrightarrow> unat (sum_list ws) = sum_list (map unat ws)"
  for ws :: "'a::len word list"
  by (simp add: unat_sum_list_wrap)

lemma writeln_assoc: "writeln (writeln s a) b = s @ (a @ nl) @ (b @ nl)"
  by (simp add: writeln_def)

end
