(* ===== verification/Timecode.thy ===== *)
theory Timecode
  imports Complex_Main Cue_Prelude
begin

text \<open>
  The timecode converter \<open>millisecond_to_mmssff\<close> (src/src/main.rs, lines 34--45): a
  \<open>u32\<close> count of milliseconds is printed as \<open>MM:SS:FF\<close>, with 75 CD frames to the
  second.  The source computes the frame field in \<open>f64\<close>:
  \<open>((ms as f64) % 1000.0 / (1000.0 / 75.0)).round() as u32\<close>.  The remainder is exact
  (every \<open>u32\<close> is an exact \<open>f64\<close>), so the frame field is a function of
  \<open>p = ms mod 1000\<close> alone; \<open>frame_round\<close> computes it as \<open>(3 p + 20) div 40\<close>, and
  \<open>frame_round_is_round\<close> proves this equal to rounding the exact quotient
  \<open>p / (1000/75)\<close> to the nearest integer, halves upwards as \<open>f64::round\<close> does on
  non-negative values.  (That the \<open>f64\<close> quotient rounds to the same integer as the exact
  one was checked for all 1000 values of \<open>p\<close>; the kernel has no IEEE model.)
  The lemmas give the field bounds, the frame field's overflow to 75 (a defect against the
  spec's "never 75"), the meaning of the timecode as the nearest CD frame to the input,
  and the round trip through a reader of \<open>MM:SS:FF\<close>.
\<close>

subsection \<open>The converter\<close>

text \<open>\<open>(ms_part / MILLISECONDS_PER_FRAME).round()\<close> for \<open>ms_part = ms % 1000\<close>.\<close>

definition frame_round :: "nat \<Rightarrow> nat" where
  "frame_round ms_part = (3 * ms_part + 20) div 40"

text \<open>The three fields \<open>(minutes, seconds, frames)\<close>, computed as the source does on \<open>u32\<close>.\<close>

definition mmssff_fields :: "u32 \<Rightarrow> nat \<times> nat \<times> nat" where
  "mmssff_fields ms =
     (let ms_part = unat ms mod 1000;
          frames = frame_round ms_part;
          seconds = (ms div 1000) mod 60;
          minutes = ms div 60000
      in (unat minutes, unat seconds, frames))"

text \<open>\<open>format!("{minutes:02}:{seconds:02}:{frames:02}")\<close>.\<close>

definition millisecond_to_mmssff :: "u32 \<Rightarrow> string" where
  "millisecond_to_mmssff ms =
     (case mmssff_fields ms of (minutes, seconds, frames) \<Rightarrow>
        zero_pad 2 minutes @ '':'' @ zero_pad 2 seconds @ '':'' @ zero_pad 2 frames)"

subsection \<open>A reader for timecodes\<close>

text \<open>Splitting at a separator character, and reading \<open>MM:SS:FF\<close> back into its fields.\<close>

fun split_on :: "char \<Rightarrow> string \<Rightarrow> string list" where
  "split_on c [] = [[]]"
| "split_on c (x # xs) =
     (let r = split_on c xs in if x = c then [] # r else (x # hd r) # tl r)"

definition parse_mmssff :: "string \<Rightarrow> (nat \<times> nat \<times> nat) option" where
  "parse_mmssff s =
     (case split_on CHR '':'' s of
        [a, b, c] \<Rightarrow>
          (case (parse_dec a, parse_dec b, parse_dec c) of
             (Some m, Some sec, Some f) \<Rightarrow> Some (m, sec, f)
           | _ \<Rightarrow> None)
      | _ \<Rightarrow> None)"

text \<open>The frame count a timecode denotes.\<close>

definition timecode_frames :: "nat \<times> nat \<times> nat \<Rightarrow> nat" where
  "timecode_frames t = (case t of (m, s, f) \<Rightarrow> (m * 60 + s) * 75 + f)"

subsection \<open>Helper lemmas\<close>

lemma split_on_not_Nil [simp]: "split_on c s \<noteq> []"
  by (induction s) (simp_all add: Let_def)

lemma split_on_no_sep: "c \<notin> set a \<Longrightarrow> split_on c a = [a]"
  by (induction a) (auto simp: Let_def)

lemma split_on_sep: "c \<notin> set a \<Longrightarrow> split_on c (a @ c # b) = a # split_on c b"
  by (induction a) (auto simp: Let_def)

lemma unat_div_u32: "unat (ms div (k::u32)) = unat ms div unat k"
  by (simp add: unat_div)

lemma mmssff_fields_eq:
  "mmssff_fields ms =
     (unat ms div 60000, unat ms div 1000 mod 60, frame_round (unat ms mod 1000))"
  by (simp add: mmssff_fields_def Let_def unat_div unat_mod)

lemma frame_round_le: "p < 1000 \<Longrightarrow> frame_round p \<le> 75"
  by (simp add: frame_round_def)

lemma minutes_seconds: "(n div 60000) * 60 + n div 1000 mod 60 = (n::nat) div 1000"
proof -
  have "n div 60000 = n div 1000 div 60"
    by (simp add: div_mult2_eq [symmetric])
  then show ?thesis by simp
qed

lemma frame_round_floor: "int (frame_round p) = \<lfloor>real p * 3 / 40 + 1 / 2\<rfloor>"
proof -
  have "real p * 3 / 40 + 1 / 2 = real (3 * p + 20) / real (40::nat)"
    by (simp add: field_simps)
  then have "\<lfloor>real p * 3 / 40 + 1 / 2\<rfloor> = int ((3 * p + 20) div 40)"
    by (simp only: floor_divide_of_nat_eq)
  then show ?thesis by (simp add: frame_round_def)
qed

lemmas mmssff_eval = millisecond_to_mmssff_def mmssff_fields_eq frame_round_def

lemmas timecode_simps = mmssff_fields_eq millisecond_to_mmssff_def timecode_frames_def

subsection \<open>Properties\<close>

text \<open>
  C2. The frame field is the exact rounding of \<open>ms_part / (1000/75)\<close>: the integer formula
  of the model agrees with the real-number computation the source expresses in \<open>f64\<close>.
\<close>

theorem frame_round_is_round: "int (frame_round p) = round (real p / (1000 / 75))"
proof -
  have "real p / (1000 / 75 :: real) = real p * 3 / 40"
    by simp
  then show ?thesis
    by (simp add: frame_round_floor round_def)
qed

text \<open>
  C3. The seconds field is below 60 and the frame field at most 75, for every input.
\<close>

theorem mmssff_fields_bounds:
  "fst (snd (mmssff_fields ms)) < 60 \<and> snd (snd (mmssff_fields ms)) \<le> 75"
  by (simp add: mmssff_fields_eq frame_round_le)

text \<open>
  C4. The frame field reaches 75 exactly when the millisecond part is at least 994: the
  converter prints a frame number that does not exist on a CD (frames run from 0 to 74),
  where it should carry into the seconds.
\<close>

theorem mmssff_frames_75_iff:
  "snd (snd (mmssff_fields ms)) = 75 \<longleftrightarrow> 994 \<le> unat ms mod 1000"
proof -
  have "unat ms mod 1000 < 1000" by simp
  then show ?thesis
    by (simp add: mmssff_fields_eq frame_round_def) linarith
qed

theorem mmssff_frames_75_iff_witness:
  "snd (snd (mmssff_fields 999)) = 75 \<and> 994 \<le> unat (999::u32) mod 1000"
  using mmssff_frames_75_iff [of 999] by simp

text \<open>
  C5. The timecode denotes the CD frame nearest to the input: read as a frame count,
  \<open>(MM * 60 + SS) * 75 + FF\<close> is \<open>ms * 75 / 1000\<close> rounded to the nearest integer,
  for every input (also where the frame field is 75).
\<close>

lemma nearest_frame_nat:
  "(n div 1000) * 75 + (3 * (n mod 1000) + 20) div 40 = (3 * n + 20) div (40::nat)"
proof -
  have "n = n mod 1000 + 1000 * (n div 1000)"
    by simp
  then have "3 * n + 20 = (3 * (n mod 1000) + 20) + 40 * (75 * (n div 1000))"
    by linarith
  then show ?thesis by simp
qed

theorem mmssff_nearest_frame:
  "int (timecode_frames (mmssff_fields ms)) = round (real (unat ms) * 75 / 1000)"
proof -
  have "timecode_frames (mmssff_fields ms) = (3 * unat ms + 20) div 40"
    using minutes_seconds [of "unat ms"] nearest_frame_nat [of "unat ms"]
    by (simp add: timecode_simps frame_round_def)
  also have "int \<dots> = int (frame_round (unat ms))"
    by (simp add: frame_round_def)
  also have "\<dots> = round (real (unat ms) * 75 / 1000)"
    by (simp add: frame_round_floor round_def field_simps)
  finally show ?thesis .
qed

text \<open>
  C6. Round trip: reading the printed timecode back at its colons gives exactly the three
  fields computed; no field is truncated by the \<open>{:02}\<close> width, even minutes beyond 99.
\<close>

theorem mmssff_roundtrip: "parse_mmssff (millisecond_to_mmssff ms) = Some (mmssff_fields ms)"
proof -
  obtain m s f where fields: "mmssff_fields ms = (m, s, f)"
    by (cases "mmssff_fields ms") auto
  have "split_on CHR '':'' (millisecond_to_mmssff ms) = [zero_pad 2 m, zero_pad 2 s, zero_pad 2 f]"
    by (simp add: millisecond_to_mmssff_def fields split_on_sep split_on_no_sep)
  then show ?thesis
    by (simp add: parse_mmssff_def fields)
qed

end
