(* ===== verification/Metadata.thy ===== *)
theory Metadata
  imports Cue_Prelude
begin

text \<open>
  The release metadata and the metadata normalizer of src/src/main.rs.  The records are
  the fields of the \<open>musicbrainz_rs\<close> entities the program reads (the fetch at lines
  64--72 asks for artist credits, genres, labels, recordings and release groups); dates
  are \<open>chrono::NaiveDate\<close> as year, month and day.  \<open>join_artists\<close> is lines 27--32.
  The release header (lines 73--110) is built as the source builds it: a \<open>String\<close>
  grown by \<open>writeln!\<close> in four blocks (performer, release group, labels, identifier and
  \<open>FILE\<close> line), each a definition here.  \<open>header_lines\<close> states the same header as
  the list of lines the spec describes, one "emit-if" rule per field, and
  \<open>release_header_refines\<close> proves the accumulating code equal to it.
\<close>

subsection \<open>Data\<close>

record artist_credit =
  credit_name :: string
  credit_joinphrase :: "string option"

record genre =
  genre_name :: string

record naive_date =
  year :: int
  month :: nat
  day :: nat

record release_group =
  rg_genres :: "genre list option"
  first_release_date :: "naive_date option"

record label =
  label_name :: string

record label_info =
  li_label :: "label option"

record track =
  track_position :: u32
  track_title :: string
  recording_artist_credit :: "artist_credit list option"
  track_length :: "u32 option"

record medium =
  medium_format :: "string option"
  medium_position :: "u32 option"
  medium_title :: "string option"
  medium_tracks :: "track list option"

record release =
  release_id :: string
  release_title :: string
  release_artist_credit :: "artist_credit list option"
  rel_group :: "release_group option"
  label_info :: "label_info list option"
  media :: "medium list option"

subsection \<open>Artist credits\<close>

text \<open>\<open>join_artists\<close>: each name followed by its join phrase, no other separator.\<close>

definition join_artists :: "artist_credit list \<Rightarrow> string" where
  "join_artists artists =
     concat (map (\<lambda>a. credit_name a @ str_or_default (credit_joinphrase a)) artists)"

subsection \<open>Dates (chrono's proleptic Gregorian calendar)\<close>

definition is_leap_year :: "int \<Rightarrow> bool" where
  "is_leap_year y \<longleftrightarrow> y mod 4 = 0 \<and> (y mod 100 \<noteq> 0 \<or> y mod 400 = 0)"

definition days_in_month :: "int \<Rightarrow> nat \<Rightarrow> nat" where
  "days_in_month y m =
     (if m = 2 then (if is_leap_year y then 29 else 28)
      else if m = 4 \<or> m = 6 \<or> m = 9 \<or> m = 11 then 30 else 31)"

definition valid_date :: "naive_date \<Rightarrow> bool" where
  "valid_date d \<longleftrightarrow>
     1 \<le> month d \<and> month d \<le> 12 \<and> 1 \<le> day d \<and> day d \<le> days_in_month (year d) (month d)"

text \<open>\<open>NaiveDate::ordinal\<close>: the day of the year, from 1.\<close>

definition ordinal :: "naive_date \<Rightarrow> nat" where
  "ordinal d = sum_list (map (days_in_month (year d)) [1..<month d]) + day d"

text \<open>\<open>NaiveDate\<close>'s \<open>Display\<close>: \<open>YYYY-MM-DD\<close>, the year signed and five wide outside 0--9999.\<close>

definition date_display :: "naive_date \<Rightarrow> string" where
  "date_display d =
     (if 0 \<le> year d \<and> year d \<le> 9999 then zero_pad 4 (nat (year d))
      else signed_zero_pad 5 (year d))
     @ ''-'' @ zero_pad 2 (month d) @ ''-'' @ zero_pad 2 (day d)"

text \<open>The value of the \<open>REM DATE\<close> line (lines 91--95): the year alone on the first day of
  the year, which is how the library fills in a date given without month or day.\<close>

definition date_text :: "naive_date \<Rightarrow> string" where
  "date_text d = (if ordinal d = 1 then int_string (year d) else date_display d)"

subsection \<open>The release header, as the code builds it\<close>

text \<open>Lines 76--78.\<close>

definition performer_block :: "artist_credit list option \<Rightarrow> string \<Rightarrow> string" where
  "performer_block ac s =
     (case ac of None \<Rightarrow> s | Some artists \<Rightarrow> writeln s (''PERFORMER '' @ quoted (join_artists artists)))"

text \<open>Lines 80--99: the genre line whenever a genre list is present, then the date line.\<close>

definition release_group_block :: "release_group option \<Rightarrow> string \<Rightarrow> string" where
  "release_group_block rg s =
     (case rg of
        None \<Rightarrow> s
      | Some g \<Rightarrow>
          (let s1 = (case rg_genres g of
                       None \<Rightarrow> s
                     | Some genres \<Rightarrow> writeln s (''REM GENRE '' @ join_sep ''; '' (map genre_name genres)))
           in case first_release_date g of
                None \<Rightarrow> s1
              | Some release_date \<Rightarrow> writeln s1 (''REM DATE '' @ date_text release_date)))"

text \<open>Lines 102--106: the loop over the labels that are present.\<close>

fun label_loop :: "string \<Rightarrow> label list \<Rightarrow> string" where
  "label_loop s [] = s"
| "label_loop s (l # ls) =
     label_loop (if label_name l \<noteq> [] then writeln s (''REM COMMENT '' @ quoted (label_name l)) else s) ls"

text \<open>Lines 101--107: \<open>filter_map(|li| li.label)\<close> and the loop.\<close>

definition label_block :: "label_info list option \<Rightarrow> string \<Rightarrow> string" where
  "label_block li s = (case li of None \<Rightarrow> s | Some ls \<Rightarrow> label_loop s (List.map_filter li_label ls))"

definition file_line :: string where
  "file_line = ''FILE '' @ quoted ''CDImage.flac'' @ '' WAVE''"

text \<open>Lines 73--110: \<open>release_cuesheet\<close>.\<close>

definition release_header :: "release \<Rightarrow> string" where
  "release_header r =
     (let s = performer_block (release_artist_credit r) [];
          s = release_group_block (rel_group r) s;
          s = label_block (label_info r) s;
          s = writeln s (''REM MUSICBRAINZ_ALBUM_ID '' @ release_id r)
      in writeln s file_line)"

subsection \<open>The release header, as the spec describes it\<close>

definition label_names :: "release \<Rightarrow> string list" where
  "label_names r =
     map label_name (List.map_filter li_label (case label_info r of None \<Rightarrow> [] | Some ls \<Rightarrow> ls))"

definition header_lines :: "release \<Rightarrow> string list" where
  "header_lines r =
     (case release_artist_credit r of None \<Rightarrow> [] | Some a \<Rightarrow> [''PERFORMER '' @ quoted (join_artists a)])
     @ (case rel_group r of
          None \<Rightarrow> []
        | Some g \<Rightarrow>
            (case rg_genres g of None \<Rightarrow> [] | Some gs \<Rightarrow> [''REM GENRE '' @ join_sep ''; '' (map genre_name gs)])
            @ (case first_release_date g of None \<Rightarrow> [] | Some d \<Rightarrow> [''REM DATE '' @ date_text d]))
     @ map (\<lambda>n. ''REM COMMENT '' @ quoted n) (filter (\<lambda>n. n \<noteq> []) (label_names r))
     @ [''REM MUSICBRAINZ_ALBUM_ID '' @ release_id r, file_line]"

subsection \<open>Helper lemmas\<close>

lemma join_artists_Nil [simp]: "join_artists [] = []"
  by (simp add: join_artists_def)

lemma join_artists_append [simp]: "join_artists (xs @ ys) = join_artists xs @ join_artists ys"
  by (simp add: join_artists_def)

lemma label_loop_eq:
  "label_loop s labels =
     s @ unlines (map (\<lambda>n. ''REM COMMENT '' @ quoted n) (filter (\<lambda>n. n \<noteq> []) (map label_name labels)))"
  by (induction labels arbitrary: s) (simp_all add: writeln_def unlines_def)

lemma sum_list_days_ge: "2 \<le> m \<Longrightarrow> 31 \<le> sum_list (map (days_in_month y) [1..<m])"
proof -
  assume "2 \<le> m"
  then have "[1..<m] = 1 # [Suc 1..<m]" by (simp add: upt_conv_Cons)
  then show ?thesis by (simp add: days_in_month_def)
qed

lemma performer_block_unlines:
  "performer_block ac (unlines ls) =
     unlines (ls @ (case ac of None \<Rightarrow> [] | Some a \<Rightarrow> [''PERFORMER '' @ quoted (join_artists a)]))"
  by (cases ac) (simp_all add: performer_block_def)

lemma release_group_block_unlines:
  "release_group_block rg (unlines ls) =
     unlines (ls @ (case rg of
          None \<Rightarrow> []
        | Some g \<Rightarrow>
            (case rg_genres g of None \<Rightarrow> [] | Some gs \<Rightarrow> [''REM GENRE '' @ join_sep ''; '' (map genre_name gs)])
            @ (case first_release_date g of None \<Rightarrow> [] | Some d \<Rightarrow> [''REM DATE '' @ date_text d])))"
  by (simp add: release_group_block_def Let_def split: option.split)

lemma label_block_unlines:
  "label_block li (unlines ls) =
     unlines (ls @ map (\<lambda>n. ''REM COMMENT '' @ quoted n)
                     (filter (\<lambda>n. n \<noteq> []) (map label_name (List.map_filter li_label
                        (case li of None \<Rightarrow> [] | Some xs \<Rightarrow> xs)))))"
  by (cases li) (simp_all add: label_block_def label_loop_eq unlines_append)

lemma ordinal_month_one: "month d = 1 \<Longrightarrow> ordinal d = day d"
  by (simp add: ordinal_def)

lemma ordinal_later_month: "2 \<le> month d \<Longrightarrow> 32 \<le> ordinal d \<or> day d = 0"
  using sum_list_days_ge [of "month d" "year d"] by (auto simp: ordinal_def)

subsection \<open>Properties\<close>

text \<open>
  C7. Refinement: the header the code accumulates with \<open>writeln!\<close> (performer, release
  group, labels, identifier, \<open>FILE\<close>) is exactly the list of lines of the spec's emit-if
  rules, in their fixed order, each line ended by a newline.
\<close>

theorem release_header_refines: "release_header r = unlines (header_lines r)"
proof -
  have "performer_block (release_artist_credit r) [] =
          unlines (case release_artist_credit r of None \<Rightarrow> [] | Some a \<Rightarrow> [''PERFORMER '' @ quoted (join_artists a)])"
    using performer_block_unlines [of _ "[]"] by simp
  then show ?thesis
    by (simp add: release_header_def header_lines_def label_names_def
        release_group_block_unlines label_block_unlines)
qed

text \<open>
  C8. A valid date is on the first day of its year exactly when it is the first of January;
  so the \<open>REM DATE\<close> value is the year alone for January 1st and the full
  \<open>YYYY-MM-DD\<close> otherwise (a genuine January 1st release is shown as a year only).
\<close>

theorem date_text_year_only:
  assumes "valid_date d"
  shows "date_text d = (if month d = 1 \<and> day d = 1 then int_string (year d) else date_display d)"
proof -
  have "ordinal d = 1 \<longleftrightarrow> month d = 1 \<and> day d = 1"
  proof (cases "month d = 1")
    case True
    then show ?thesis by (simp add: ordinal_month_one)
  next
    case False
    with assms have "2 \<le> month d" and "day d \<noteq> 0" by (auto simp: valid_date_def)
    then show ?thesis using ordinal_later_month [of d] False by auto
  qed
  then show ?thesis by (simp add: date_text_def)
qed

theorem date_text_year_only_witness:
  "valid_date \<lparr>year = 2005, month = 1, day = 1\<rparr>
   \<and> date_text \<lparr>year = 2005, month = 1, day = 1\<rparr> = ''2005''
   \<and> valid_date \<lparr>year = 2005, month = 3, day = 14\<rparr>
   \<and> date_text \<lparr>year = 2005, month = 3, day = 14\<rparr> = ''2005-03-14''"
proof -
  have v1: "valid_date \<lparr>year = 2005, month = 1, day = 1\<rparr>"
    by (simp add: valid_date_def days_in_month_def)
  have v2: "valid_date \<lparr>year = 2005, month = 3, day = 14\<rparr>"
    by (simp add: valid_date_def days_in_month_def)
  have s1: "int_string 2005 = ''2005''" by code_simp
  have s2: "date_display \<lparr>year = 2005, month = 3, day = 14\<rparr> = ''2005-03-14''"
    by (simp add: date_display_def, code_simp)
  show ?thesis
    using date_text_year_only [OF v1] date_text_year_only [OF v2] v1 v2 s1 s2 by simp
qed

end
