(* ===== verification/Cuesheet.thy ===== *)
theory Cuesheet
  imports Timecode Metadata
begin

text \<open>
  The cue-sheet builder of src/src/main.rs (lines 112--142): for one medium, the medium
  identifier \<open>"{format} {position:02}"\<close>, the \<open>TITLE\<close> line, and the loop over the
  tracks that writes a \<open>TRACK\<close> block per track and carries the start offset
  \<open>track_start\<close>, a \<open>u32\<close> that wraps on overflow as \<open>+=\<close> does in a release build.
  \<open>track.length.unwrap()\<close> is evaluated for every track, the last one included, and a
  missing length is the panic \<open>Unwrap_None ''track.length''\<close>.
  The spec-side view is \<open>track_block\<close> (the lines of one block) and \<open>running\<close> (the
  start offsets as prefix sums); \<open>track_loop_refines\<close> proves the loop equal to the
  blocks at those offsets, \<open>track_loop_split\<close> cuts its output at any track, and the
  properties give the whole cue sheet or the error (C1), the block of the \<open>k\<close>-th track
  in the output (C9) and the bounds of its offset (C10).
\<close>

subsection \<open>The builder\<close>

text \<open>Line 115: \<open>format!("{} {:02}", format.unwrap_or_default(), position.unwrap_or_default())\<close>.\<close>

definition medium_id :: "medium \<Rightarrow> string" where
  "medium_id m =
     str_or_default (medium_format m) @ '' '' @ zero_pad 2 (unat (u32_or_default (medium_position m)))"

text \<open>Lines 117--126: the title line, without its newline.\<close>

definition medium_title_line :: "string \<Rightarrow> bool \<Rightarrow> medium \<Rightarrow> string" where
  "medium_title_line title is_album m =
     (let t = ''TITLE '' @ dq @ title;
          t = (if is_album then t @ ''- '' @ medium_id m else t);
          t = (case medium_title m of
                 None \<Rightarrow> t
               | Some mt \<Rightarrow> if mt \<noteq> [] then t @ '': '' @ mt else t)
      in t @ dq)"

text \<open>Lines 130--142: the track loop, with the cue sheet and \<open>track_start\<close> as its state.\<close>

fun track_loop :: "string \<Rightarrow> u32 \<Rightarrow> track list \<Rightarrow> panic + string" where
  "track_loop s track_start [] = Inr s"
| "track_loop s track_start (t # ts) =
     (let s = writeln s (''  TRACK '' @ zero_pad 2 (unat (track_position t)) @ '' AUDIO'');
          s = writeln s (''    TITLE '' @ quoted (track_title t));
          s = (case recording_artist_credit t of
                 None \<Rightarrow> s
               | Some track_artists \<Rightarrow> writeln s (''    PERFORMER '' @ quoted (join_artists track_artists)))
      in case track_length t of
           None \<Rightarrow> Inl (Unwrap_None ''track.length'')
         | Some len \<Rightarrow>
             track_loop (writeln s (''    INDEX 01 '' @ millisecond_to_mmssff track_start))
               (track_start + len) ts)"

text \<open>Lines 117--142: the title line, the release header, then the tracks from offset 0.\<close>

definition medium_cuesheet :: "string \<Rightarrow> string \<Rightarrow> bool \<Rightarrow> medium \<Rightarrow> panic + string" where
  "medium_cuesheet header title is_album m =
     track_loop (medium_title_line title is_album m @ nl @ header) 0
       (case medium_tracks m of None \<Rightarrow> [] | Some ts \<Rightarrow> ts)"

subsection \<open>The spec's view of a medium\<close>

text \<open>The lines of one \<open>TRACK\<close> block starting at offset \<open>off\<close>.\<close>

definition track_block :: "track \<Rightarrow> u32 \<Rightarrow> string list" where
  "track_block t off =
     [''  TRACK '' @ zero_pad 2 (unat (track_position t)) @ '' AUDIO'', ''    TITLE '' @ quoted (track_title t)]
     @ (case recording_artist_credit t of None \<Rightarrow> [] | Some a \<Rightarrow> [''    PERFORMER '' @ quoted (join_artists a)])
     @ [''    INDEX 01 '' @ millisecond_to_mmssff off]"

text \<open>The start offsets of a list of lengths from \<open>s\<close>: \<open>s\<close>, \<open>s + l1\<close>, \<open>s + l1 + l2\<close>, \dots\<close>

fun running :: "u32 \<Rightarrow> u32 list \<Rightarrow> u32 list" where
  "running s [] = []"
| "running s (l # ls) = s # running (s + l) ls"

definition medium_track_list :: "medium \<Rightarrow> track list" where
  "medium_track_list m = (case medium_tracks m of None \<Rightarrow> [] | Some ts \<Rightarrow> ts)"

definition all_lengths :: "track list \<Rightarrow> bool" where
  "all_lengths ts \<longleftrightarrow> list_all (\<lambda>t. track_length t \<noteq> None) ts"

definition lengths :: "track list \<Rightarrow> u32 list" where
  "lengths ts = map (\<lambda>t. case track_length t of None \<Rightarrow> 0 | Some l \<Rightarrow> l) ts"

subsection \<open>Helper lemmas\<close>

lemma length_running [simp]: "length (running s ls) = length ls"
  by (induction ls arbitrary: s) simp_all

lemma running_nth: "k < length ls \<Longrightarrow> running s ls ! k = s + sum_list (take k ls)"
proof (induction ls arbitrary: s k)
  case Nil
  then show ?case by simp
next
  case (Cons l ls)
  then show ?case by (cases k) (simp_all add: algebra_simps)
qed

lemma track_loop_refines:
  "all_lengths ts \<Longrightarrow>
   track_loop s start ts = Inr (s @ unlines (concat (map2 track_block ts (running start (lengths ts)))))"
proof (induction ts arbitrary: s start)
  case Nil
  then show ?case by simp
next
  case (Cons t ts)
  then obtain len where len: "track_length t = Some len" and rest: "all_lengths ts"
    by (auto simp: all_lengths_def)
  show ?case
    using Cons.IH [OF rest]
    by (cases "recording_artist_credit t")
       (simp_all add: len lengths_def track_block_def writeln_def unlines_def Let_def)
qed

lemma track_loop_Inl:
  "(\<exists>e. track_loop s start ts = Inl e) \<longleftrightarrow> \<not> all_lengths ts"
proof (induction ts arbitrary: s start)
  case Nil
  then show ?case by (simp add: all_lengths_def)
next
  case (Cons t ts)
  then show ?case
    by (cases "track_length t") (simp_all add: all_lengths_def Let_def)
qed

lemma track_loop_error:
  "track_loop s start ts = Inl e \<Longrightarrow> e = Unwrap_None ''track.length''"
  by (induction s start ts rule: track_loop.induct) (auto simp: Let_def split: option.splits)

lemma sum_list_take_le: "sum_list (take k xs) \<le> sum_list (xs :: nat list)"
proof -
  have "sum_list xs = sum_list (take k xs) + sum_list (drop k xs)"
    by (metis append_take_drop_id sum_list_append)
  then show ?thesis by simp
qed

lemma medium_cuesheet_Inr:
  "all_lengths (medium_track_list m) \<Longrightarrow>
   medium_cuesheet header title is_album m =
     Inr (medium_title_line title is_album m @ nl @ header
          @ unlines (concat (map2 track_block (medium_track_list m) (running 0 (lengths (medium_track_list m))))))"
  by (simp add: medium_cuesheet_def track_loop_refines medium_track_list_def)

lemma medium_cuesheet_Inl:
  "\<not> all_lengths (medium_track_list m) \<Longrightarrow>
   medium_cuesheet header title is_album m = Inl (Unwrap_None ''track.length'')"
proof -
  assume no: "\<not> all_lengths (medium_track_list m)"
  then have "\<exists>e. medium_cuesheet header title is_album m = Inl e"
    using track_loop_Inl by (simp add: medium_cuesheet_def medium_track_list_def)
  then obtain e where "medium_cuesheet header title is_album m = Inl e" ..
  then show ?thesis
    using track_loop_error by (auto simp: medium_cuesheet_def)
qed

lemma running_append:
  "running s (xs @ ys) = running s xs @ running (s + sum_list xs) ys"
  by (induction xs arbitrary: s) (simp_all add: algebra_simps)

lemma lengths_append [simp]: "lengths (xs @ ys) = lengths xs @ lengths ys"
  by (simp add: lengths_def)

lemma length_lengths [simp]: "length (lengths ts) = length ts"
  by (simp add: lengths_def)

lemma all_lengths_append [simp]: "all_lengths (xs @ ys) \<longleftrightarrow> all_lengths xs \<and> all_lengths ys"
  by (simp add: all_lengths_def)

lemma track_loop_append:
  assumes "all_lengths xs"
  shows "track_loop s start (xs @ ys) =
           (case track_loop s start xs of Inl e \<Rightarrow> Inl e
            | Inr s' \<Rightarrow> track_loop s' (start + sum_list (lengths xs)) ys)"
  using assms
proof (induction xs arbitrary: s start)
  case Nil
  then show ?case by (simp add: lengths_def)
next
  case (Cons t xs)
  then obtain len where len: "track_length t = Some len" and rest: "all_lengths xs"
    by (auto simp: all_lengths_def)
  have l: "sum_list (lengths (t # xs)) = len + sum_list (lengths xs)"
    by (simp add: lengths_def len)
  show ?case
    using Cons.IH [OF rest]
    by (cases "recording_artist_credit t") (simp_all add: len l Let_def add.assoc cong: sum.case_cong)
qed

lemma track_loop_block:
  "track_length t = Some len \<Longrightarrow>
   track_loop s start (t # ts) = track_loop (s @ unlines (track_block t start)) (start + len) ts"
  by (cases "recording_artist_credit t")
     (simp_all add: track_block_def writeln_def unlines_def Let_def)

lemma track_loop_split:
  assumes "all_lengths ts" and "k < length ts"
  shows "\<exists>pre rest. track_loop s start (take k ts) = Inr pre
           \<and> track_loop [] (start + sum_list (take (Suc k) (lengths ts))) (drop (Suc k) ts) = Inr rest
           \<and> track_loop s start ts
               = Inr (pre @ unlines (track_block (ts ! k) (start + sum_list (take k (lengths ts)))) @ rest)"
proof -
  have ts: "ts = take k ts @ [ts ! k] @ drop (Suc k) ts"
    using assms(2) by (simp add: Cons_nth_drop_Suc)
  have all: "all_lengths (take k ts)" "all_lengths [ts ! k]" "all_lengths (drop (Suc k) ts)"
    using assms(1) ts by (metis all_lengths_append)+
  then obtain len where len: "track_length (ts ! k) = Some len"
    by (auto simp: all_lengths_def)
  obtain pre where pre: "track_loop s start (take k ts) = Inr pre"
    using track_loop_refines [OF all(1)] by blast
  have tk: "take (Suc k) (lengths ts) = lengths (take k ts) @ [len]"
    using assms(2) len by (simp add: take_Suc_conv_app_nth lengths_def take_map)
  have tk0: "take k (lengths ts) = lengths (take k ts)"
    by (simp add: lengths_def take_map)
  define off where "off = start + sum_list (lengths (take k ts)) + len"
  obtain rest where rest: "track_loop [] off (drop (Suc k) ts) = Inr rest"
    using track_loop_refines [OF all(3)] by blast
  have "track_loop s start (take k ts @ ts ! k # drop (Suc k) ts) =
      track_loop (pre @ unlines (track_block (ts ! k) (start + sum_list (lengths (take k ts))))) off
        (drop (Suc k) ts)"
    by (simp add: track_loop_append [OF all(1)] pre track_loop_block [OF len] off_def del: track_loop.simps)
  also have "\<dots> = Inr (pre @ unlines (track_block (ts ! k) (start + sum_list (lengths (take k ts)))) @ rest)"
    using rest all(3) by (simp add: track_loop_refines)
  finally have "track_loop s start ts =
      Inr (pre @ unlines (track_block (ts ! k) (start + sum_list (lengths (take k ts)))) @ rest)"
    using ts by simp
  then show ?thesis
    using pre rest tk tk0 by (simp add: off_def algebra_simps)
qed
subsection \<open>Properties\<close>

text \<open>
  C1. The cue sheet of a medium, completely: if every track has a length, it is the title
  line, the release header, and one \<open>TRACK\<close> block per track in medium order, each at the
  running sum of the lengths before it, starting from 0 for every medium; otherwise the
  builder panics on \<open>track.length.unwrap()\<close>, also when only the last track lacks a
  length.
\<close>

theorem medium_cuesheet_spec:
  "medium_cuesheet header title is_album m =
     (if all_lengths (medium_track_list m)
      then Inr (medium_title_line title is_album m @ nl @ header
                @ unlines (concat (map2 track_block (medium_track_list m)
                                    (running 0 (lengths (medium_track_list m))))))
      else Inl (Unwrap_None ''track.length''))"
  by (simp add: medium_cuesheet_Inr medium_cuesheet_Inl)

text \<open>
  C9. The \<open>k\<close>-th track's block in the loop's output: when every track has a length,
  the loop run from offset 0 writes the output of the first \<open>k\<close> tracks, then the block
  of track \<open>k\<close> at the sum of the lengths of tracks \<open>0..k-1\<close>, then the output of
  the remaining tracks started at the sum of the lengths of tracks \<open>0..k\<close>.  In
  particular the first track is at \<open>00:00:00\<close> and each offset grows by the previous
  track's length.
\<close>

theorem index_offset_kth:
  assumes "all_lengths ts" and "k < length ts"
  shows "\<exists>pre rest. track_loop s 0 (take k ts) = Inr pre
           \<and> track_loop [] (sum_list (take (Suc k) (lengths ts))) (drop (Suc k) ts) = Inr rest
           \<and> track_loop s 0 ts = Inr (pre @ unlines (track_block (ts ! k) (sum_list (take k (lengths ts)))) @ rest)"
  using track_loop_split [OF assms, of s 0] by simp

text \<open>
  C10. Bounds of the offset in the loop's output: the \<open>u32\<close> offset printed for track
  \<open>k\<close> is the sum of the lengths before it modulo \<open>2^32\<close>, and exactly that sum when
  the medium's total length fits in a \<open>u32\<close> (about 49.7 days).
\<close>

theorem running_offset_exact:
  assumes "all_lengths ts" and "k < length ts"
  shows "\<exists>pre rest off. track_loop s 0 ts = Inr (pre @ unlines (track_block (ts ! k) off) @ rest)
           \<and> track_loop s 0 (take k ts) = Inr pre
           \<and> unat off = sum_list (map unat (take k (lengths ts))) mod 2 ^ 32
           \<and> (sum_list (map unat (lengths ts)) < 2 ^ 32 \<longrightarrow> unat off = sum_list (map unat (take k (lengths ts))))"
proof -
  obtain pre rest where split:
    "track_loop s 0 (take k ts) = Inr pre"
    "track_loop s 0 ts = Inr (pre @ unlines (track_block (ts ! k) (sum_list (take k (lengths ts)))) @ rest)"
    using track_loop_split [OF assms, of s 0] by auto
  have le: "sum_list (map unat (take k (lengths ts))) \<le> sum_list (map unat (lengths ts))"
    using sum_list_take_le [of k "map unat (lengths ts)"] by (simp add: take_map)
  have "unat (sum_list (take k (lengths ts))) = sum_list (map unat (take k (lengths ts))) mod 2 ^ 32"
    by (simp add: unat_sum_list_wrap)
  moreover have "sum_list (map unat (lengths ts)) < 2 ^ 32 \<longrightarrow>
      unat (sum_list (take k (lengths ts))) = sum_list (map unat (take k (lengths ts)))"
    using le by (auto simp: unat_sum_list_exact)
  ultimately show ?thesis
    using split by blast
qed

text \<open>
  C21. The cue file's name is decided by the medium's format and position alone, and
  tells them apart: two media get the same identifier exactly when their formats (an
  absent one read as \<open>""\<close>) and their positions (absent read as 0) are equal.  So two
  media that both lack a format and a position share the file \<open>" 00.cue"\<close>.
\<close>

theorem medium_id_eq_iff:
  "medium_id m1 = medium_id m2 \<longleftrightarrow>
     str_or_default (medium_format m1) = str_or_default (medium_format m2)
     \<and> u32_or_default (medium_position m1) = u32_or_default (medium_position m2)"
  by (simp add: medium_id_def append_sep_eq_iff zero_pad_inj unsigned_word_eqI word_unat_eq_iff)

end
