(* ===== verification/Program.thy ===== *)
theory Program
  imports Cuesheet
begin

text \<open>
  The cue-sheet half of \<open>main\<close> (src/src/main.rs, lines 58--147).  The program's
  effects are a trace of \<open>effect\<close> values in the order the code performs them; a panic
  ends the trace, and what was written before it stays written.  The file system is an
  oracle \<open>write_ok\<close> saying which writes succeed (\<open>std::fs::write(..).unwrap()\<close> panics
  on the others).  \<open>media_loop\<close> is the \<open>for medium in media\<close> loop, \<open>write_cuesheets\<close>
  the block at lines 112--147 with the header computed once before it.  Paths are Unix
  \<open>PathBuf::join\<close>.
\<close>

subsection \<open>Effects and paths\<close>

datatype effect =
    Create_dir_all string
  | Set_user_agent string
  | Fetch_release string
  | Fetch_coverart string
  | Write_file string string
  | Eprintln string
  | Sleep nat
  | Http_get string

text \<open>\<open>Path::join\<close> on Unix: an absolute component replaces the path; otherwise one
  separator is put between the two unless the path is empty or already ends in one.\<close>

definition path_join :: "string \<Rightarrow> string \<Rightarrow> string" where
  "path_join p c =
     (if c \<noteq> [] \<and> hd c = CHR ''/'' then c
      else if p = [] then c
      else if last p = CHR ''/'' then p @ c
      else p @ ''/'' @ c)"

definition cue_path :: "string \<Rightarrow> medium \<Rightarrow> string" where
  "cue_path out_dir m = path_join out_dir (medium_id m @ ''.cue'')"

subsection \<open>The media loop\<close>

text \<open>Lines 114--146: build each medium's cue sheet and write it to
  \<open>out_dir/<medium_id>.cue\<close>; a panic in the builder or in the write ends the loop.\<close>

fun media_loop ::
  "(string \<Rightarrow> bool) \<Rightarrow> string \<Rightarrow> string \<Rightarrow> string \<Rightarrow> bool \<Rightarrow> medium list \<Rightarrow> effect list \<times> panic option"
where
  "media_loop write_ok out_dir header title is_album [] = ([], None)"
| "media_loop write_ok out_dir header title is_album (m # ms) =
     (case medium_cuesheet header title is_album m of
        Inl e \<Rightarrow> ([], Some e)
      | Inr cuesheet \<Rightarrow>
          (let output = cue_path out_dir m
           in if write_ok output
              then (case media_loop write_ok out_dir header title is_album ms of
                      (effs, r) \<Rightarrow> (Write_file output cuesheet # effs, r))
              else ([], Some (Unwrap_Err ''fs::write''))))"

text \<open>Lines 73--147: the header once, then the loop over the media if there are any.\<close>

definition write_cuesheets :: "(string \<Rightarrow> bool) \<Rightarrow> string \<Rightarrow> release \<Rightarrow> effect list \<times> panic option" where
  "write_cuesheets write_ok out_dir r =
     (let release_cuesheet = release_header r
      in case media r of
           None \<Rightarrow> ([], None)
         | Some ms \<Rightarrow>
             (let is_album = 1 < length ms
              in media_loop write_ok out_dir release_cuesheet (release_title r) is_album ms))"

subsection \<open>The spec's view: the cue sheet of each medium\<close>

definition cuesheet_text :: "release \<Rightarrow> bool \<Rightarrow> medium \<Rightarrow> string" where
  "cuesheet_text r is_album m =
     medium_title_line (release_title r) is_album m @ nl @ release_header r
     @ unlines (concat (map2 track_block (medium_track_list m) (running 0 (lengths (medium_track_list m)))))"

text \<open>A medium the loop gets past: all its lengths are present and its file can be written.\<close>

definition medium_ok :: "(string \<Rightarrow> bool) \<Rightarrow> string \<Rightarrow> medium \<Rightarrow> bool" where
  "medium_ok write_ok out_dir m \<longleftrightarrow> all_lengths (medium_track_list m) \<and> write_ok (cue_path out_dir m)"

definition cue_writes :: "string \<Rightarrow> release \<Rightarrow> bool \<Rightarrow> medium list \<Rightarrow> effect list" where
  "cue_writes out_dir r is_album ms = map (\<lambda>m. Write_file (cue_path out_dir m) (cuesheet_text r is_album m)) ms"

subsection \<open>Helper lemmas\<close>

lemma medium_cuesheet_ok:
  "all_lengths (medium_track_list m) \<Longrightarrow>
   medium_cuesheet (release_header r) (release_title r) a m = Inr (cuesheet_text r a m)"
  by (simp add: medium_cuesheet_Inr cuesheet_text_def)

lemma medium_cuesheet_fail:
  "\<not> all_lengths (medium_track_list m) \<Longrightarrow>
   medium_cuesheet h t a m = Inl (Unwrap_None ''track.length'')"
  by (rule medium_cuesheet_Inl)

lemma media_loop_prefix:
  "list_all (medium_ok w out) pre \<Longrightarrow>
   media_loop w out (release_header r) (release_title r) a (pre @ ms) =
     (case media_loop w out (release_header r) (release_title r) a ms of
        (effs, res) \<Rightarrow> (cue_writes out r a pre @ effs, res))"
proof (induction pre)
  case Nil
  then show ?case by (simp add: cue_writes_def split: prod.split)
next
  case (Cons m pre)
  then show ?case
    by (simp add: medium_ok_def medium_cuesheet_ok cue_path_def cue_writes_def Let_def
        split: prod.split)
qed

lemma media_loop_all_ok:
  "list_all (medium_ok w out) ms \<Longrightarrow>
   media_loop w out (release_header r) (release_title r) a ms = (cue_writes out r a ms, None)"
  using media_loop_prefix [of w out ms r a "[]"] by simp

lemma media_loop_stops:
  "\<not> all_lengths (medium_track_list m) \<Longrightarrow>
   media_loop w out (release_header r) (release_title r) a (m # ms) = ([], Some (Unwrap_None ''track.length''))"
  by (simp add: medium_cuesheet_fail)

lemma media_loop_write_fails:
  "all_lengths (medium_track_list m) \<Longrightarrow> \<not> w (cue_path out m) \<Longrightarrow>
   media_loop w out (release_header r) (release_title r) a (m # ms) = ([], Some (Unwrap_Err ''fs::write''))"
  by (simp add: medium_cuesheet_ok)

lemma write_cuesheets_at:
  assumes "media r = Some ms" and "k < length ms" and "list_all (medium_ok w out) (take k ms)"
  shows "write_cuesheets w out r =
           (case media_loop w out (release_header r) (release_title r) (1 < length ms) (ms ! k # drop (Suc k) ms) of
              (effs, res) \<Rightarrow> (cue_writes out r (1 < length ms) (take k ms) @ effs, res))"
proof -
  have "ms = take k ms @ (ms ! k) # drop (Suc k) ms"
    using assms(2) by (simp add: id_take_nth_drop)
  then have "write_cuesheets w out r =
      media_loop w out (release_header r) (release_title r) (1 < length ms)
        (take k ms @ (ms ! k) # drop (Suc k) ms)"
    using assms(1) by (simp add: write_cuesheets_def)
  then show ?thesis
    by (simp only: media_loop_prefix [OF assms(3)])
qed

subsection \<open>Properties\<close>

text \<open>
  C11. When every medium has all its track lengths and every write succeeds, the program
  writes exactly one file per medium, in medium order, named by the medium identifier;
  each holds that medium's title line, the same release header, and the medium's own
  tracks with offsets from zero.
\<close>

theorem write_cuesheets_all_media:
  assumes "media r = Some ms" and "list_all (medium_ok w out) ms"
  shows "write_cuesheets w out r = (cue_writes out r (1 < length ms) ms, None)"
  using assms by (simp add: write_cuesheets_def media_loop_all_ok)

text \<open>
  C12. A medium with a missing track length aborts the run, but only after the cue sheets
  of the media before it have been written: those files stay on disk next to a run that
  failed.
\<close>

theorem write_cuesheets_partial:
  assumes "media r = Some ms" and "k < length ms"
    and "list_all (medium_ok w out) (take k ms)"
    and "\<not> all_lengths (medium_track_list (ms ! k))"
  shows "write_cuesheets w out r =
           (cue_writes out r (1 < length ms) (take k ms), Some (Unwrap_None ''track.length''))"
  by (simp only: write_cuesheets_at [OF assms(1-3)] media_loop_stops [OF assms(4)] prod.case append_Nil2)

text \<open>
  C20. The other way the media loop fails: a medium whose cue sheet is built but whose
  file cannot be written panics in \<open>fs::write(...).unwrap()\<close>, after the files of the
  media before it have been written and before any medium after it is looked at.
\<close>

theorem write_cuesheets_write_fails:
  assumes "media r = Some ms" and "k < length ms"
    and "list_all (medium_ok w out) (take k ms)"
    and "all_lengths (medium_track_list (ms ! k))" and "\<not> w (cue_path out (ms ! k))"
  shows "write_cuesheets w out r =
           (cue_writes out r (1 < length ms) (take k ms), Some (Unwrap_Err ''fs::write''))"
  by (simp only: write_cuesheets_at [OF assms(1-3)] media_loop_write_fails [of "ms ! k" w out, OF assms(4,5)] prod.case
      append_Nil2)

end
