(* ===== verification/Artwork.thy ===== *)
theory Artwork
  imports Program
begin

text \<open>
  The cover-art step of src/src/main.rs: \<open>download_cover_art\<close> (lines 47--56) and the
  dispatch on \<open>CoverartResponse\<close> (lines 149--169).  The network is an oracle
  \<open>http\<close> from a URL to the response, \<open>None\<close> when the request itself fails
  (\<open>reqwest::blocking::get(url).unwrap()\<close> then panics).  A response has its status code,
  the status's printed form, the path of the final URL (after redirects) and the body,
  \<open>None\<close> when reading it fails.  File names follow Rust's \<open>Path\<close> on Unix:
  \<open>extension\<close> is the text after the last dot of the last component (none for a name
  with no dot or a single leading dot), and \<open>with_extension\<close> truncates the path after the
  stem of its last component, trailing separators included, and appends the extension.
  The properties: with no panicking download every image is fetched and followed by a
  sleep (C13); a failed request ends the loop (C14); an untyped image lands beside the
  \<open>Cover\<close> directory (C18); images with equal types overwrite each other (C19).
\<close>

subsection \<open>Data\<close>

record http_response =
  resp_status :: nat
  resp_status_display :: string
  resp_url_path :: string
  resp_body :: "string option"

record cover_image =
  img_types :: "string list"
  img_url :: string

datatype coverart_response = Url string | Json "cover_image list"

definition is_success :: "nat \<Rightarrow> bool" where
  "is_success code \<longleftrightarrow> 200 \<le> code \<and> code \<le> 299"

subsection \<open>Paths\<close>

text \<open>The path with its trailing separators removed, split at its last separator.\<close>

definition strip_trailing_sep :: "string \<Rightarrow> string" where
  "strip_trailing_sep p = rev (dropWhile (\<lambda>c. c = CHR ''/'') (rev p))"

definition split_last_sep :: "string \<Rightarrow> string \<times> string" where
  "split_last_sep p =
     (let q = strip_trailing_sep p;
          name = rev (takeWhile (\<lambda>c. c \<noteq> CHR ''/'') (rev q))
      in (take (length q - length name) q, name))"

text \<open>\<open>Path::file_name\<close>: the last component, none for an empty path, \<open>.\<close> or \<open>..\<close>.\<close>

definition file_name :: "string \<Rightarrow> string option" where
  "file_name p =
     (case split_last_sep p of (_, name) \<Rightarrow>
        if name = [] \<or> name = ''.'' \<or> name = ''..'' then None else Some name)"

text \<open>The split of a file name at its last dot, as \<open>rsplit_file_at_dot\<close> does: the part
  before the dot is empty for a name whose only dot leads it, and then there is no
  extension.\<close>

definition split_at_dot :: "string \<Rightarrow> string \<times> string option" where
  "split_at_dot name =
     (let after = rev (takeWhile (\<lambda>c. c \<noteq> CHR ''.'') (rev name))
      in if length after = length name then (name, None)
         else let before = take (length name - length after - 1) name
              in if before = [] then (name, None) else (before, Some after))"

definition extension :: "string \<Rightarrow> string option" where
  "extension p = (case file_name p of None \<Rightarrow> None | Some name \<Rightarrow> snd (split_at_dot name))"

definition with_extension :: "string \<Rightarrow> string \<Rightarrow> string" where
  "with_extension p ext =
     (case file_name p of
        None \<Rightarrow> p
      | Some name \<Rightarrow>
          fst (split_last_sep p) @ fst (split_at_dot name) @ (if ext = [] then [] else ''.'' @ ext))"

subsection \<open>Running effects in sequence\<close>

type_synonym run = "effect list \<times> panic option"

text \<open>The second run happens only if the first one did not panic.\<close>

fun and_then :: "run \<Rightarrow> run \<Rightarrow> run" where
  "and_then (effs, None) r = (effs @ fst r, snd r)"
| "and_then (effs, Some p) r = (effs, Some p)"

subsection \<open>Downloads\<close>

text \<open>Lines 47--56.\<close>

definition download_cover_art ::
  "(string \<Rightarrow> http_response option) \<Rightarrow> (string \<Rightarrow> bool) \<Rightarrow> string \<Rightarrow> string \<Rightarrow> run" where
  "download_cover_art http write_ok url output_path_prefix =
     and_then ([Http_get url], None)
       (case http url of
          None \<Rightarrow> ([], Some (Unwrap_Err ''reqwest::blocking::get''))
        | Some resp \<Rightarrow>
            if is_success (resp_status resp) then
              (case extension (resp_url_path resp) of
                 None \<Rightarrow> ([], Some (Unwrap_None ''extension''))
               | Some file_extension \<Rightarrow>
                   (let output_path = with_extension output_path_prefix file_extension
                    in case resp_body resp of
                         None \<Rightarrow> ([], Some (Unwrap_Err ''bytes''))
                       | Some bytes \<Rightarrow>
                           if write_ok output_path then ([Write_file output_path bytes], None)
                           else ([], Some (Unwrap_Err ''fs::write''))))
            else ([Eprintln (''HTTP error code '' @ resp_status_display resp)], None))"

text \<open>Lines 159--163: each image to \<open>Cover/<types joined by _>\<close>, then one second's sleep.\<close>

fun image_loop ::
  "(string \<Rightarrow> http_response option) \<Rightarrow> (string \<Rightarrow> bool) \<Rightarrow> string \<Rightarrow> cover_image list \<Rightarrow> run" where
  "image_loop http write_ok cover_art_path [] = ([], None)"
| "image_loop http write_ok cover_art_path (img # imgs) =
     (let img_filename_stem = join_sep ''_'' (img_types img)
      in and_then (download_cover_art http write_ok (img_url img) (path_join cover_art_path img_filename_stem))
           (and_then ([Sleep 1], None) (image_loop http write_ok cover_art_path imgs)))"

text \<open>Lines 149--169, for \<open>args.cover_art\<close> set: \<open>fetch\<close> is the cover-art request's
  result, \<open>None\<close> when it fails.\<close>

definition cover_art_step ::
  "coverart_response option \<Rightarrow> (string \<Rightarrow> http_response option) \<Rightarrow> (string \<Rightarrow> bool) \<Rightarrow> (string \<Rightarrow> bool)
   \<Rightarrow> string \<Rightarrow> string \<Rightarrow> run" where
  "cover_art_step fetch http dir_ok write_ok rid out_dir =
     (let cover_art_path = path_join out_dir ''Cover''
      in and_then ([Fetch_coverart rid], None)
         (case fetch of
           None \<Rightarrow> ([Eprintln ''Failed to download cover art''], None)
         | Some (Url cover_art_url) \<Rightarrow> download_cover_art http write_ok cover_art_url cover_art_path
         | Some (Json images) \<Rightarrow>
             and_then
               (if dir_ok cover_art_path then ([Create_dir_all cover_art_path], None)
                else ([], Some (Unwrap_Err ''fs::create_dir_all'')))
               (image_loop http write_ok cover_art_path images)))"

text \<open>What makes one download finish without a panic: the request succeeds, and a
  successful status comes with an extension, a readable body and a writable file.\<close>

definition download_ok ::
  "(string \<Rightarrow> http_response option) \<Rightarrow> (string \<Rightarrow> bool) \<Rightarrow> string \<Rightarrow> string \<Rightarrow> bool" where
  "download_ok http write_ok url prefix =
     (case http url of
        None \<Rightarrow> False
      | Some resp \<Rightarrow>
          \<not> is_success (resp_status resp)
          \<or> (case extension (resp_url_path resp) of
                None \<Rightarrow> False
              | Some ext \<Rightarrow> resp_body resp \<noteq> None \<and> write_ok (with_extension prefix ext)))"

definition image_prefix :: "string \<Rightarrow> cover_image \<Rightarrow> string" where
  "image_prefix cover_art_path img = path_join cover_art_path (join_sep ''_'' (img_types img))"

definition is_net_or_sleep :: "effect \<Rightarrow> bool" where
  "is_net_or_sleep e = (case e of Http_get _ \<Rightarrow> True | Sleep _ \<Rightarrow> True | _ \<Rightarrow> False)"

text \<open>The server answers \<open>url\<close> with a success status, a final URL path whose extension
  is \<open>ext\<close>, and the body \<open>bytes\<close>.\<close>

definition serves :: "(string \<Rightarrow> http_response option) \<Rightarrow> string \<Rightarrow> string \<Rightarrow> string \<Rightarrow> bool" where
  "serves http url ext bytes \<longleftrightarrow>
     (case http url of
        None \<Rightarrow> False
      | Some resp \<Rightarrow> is_success (resp_status resp) \<and> extension (resp_url_path resp) = Some ext
                     \<and> resp_body resp = Some bytes)"

subsection \<open>Helper lemmas\<close>

lemma and_then_assoc: "and_then (and_then a b) c = and_then a (and_then b c)"
proof -
  obtain e r where a: "a = (e, r)" by (cases a)
  obtain e' r' where b: "b = (e', r')" by (cases b)
  show ?thesis
    by (cases r; cases r') (simp_all add: a b)
qed

lemma download_ok_run:
  "download_ok http write_ok url prefix \<Longrightarrow>
   snd (download_cover_art http write_ok url prefix) = None
   \<and> filter is_net_or_sleep (fst (download_cover_art http write_ok url prefix)) = [Http_get url]"
  by (auto simp: download_ok_def download_cover_art_def is_net_or_sleep_def Let_def
      split: option.splits if_splits)

lemma download_no_response:
  "http url = None \<Longrightarrow>
   download_cover_art http write_ok url prefix = ([Http_get url], Some (Unwrap_Err ''reqwest::blocking::get''))"
  by (simp add: download_cover_art_def)

lemma download_not_success:
  "http url = Some resp \<Longrightarrow> \<not> is_success (resp_status resp) \<Longrightarrow>
   download_cover_art http write_ok url prefix =
     ([Http_get url, Eprintln (''HTTP error code '' @ resp_status_display resp)], None)"
  by (simp add: download_cover_art_def)

lemma download_no_extension:
  "http url = Some resp \<Longrightarrow> is_success (resp_status resp) \<Longrightarrow> extension (resp_url_path resp) = None \<Longrightarrow>
   download_cover_art http write_ok url prefix = ([Http_get url], Some (Unwrap_None ''extension''))"
  by (simp add: download_cover_art_def)

lemma image_loop_Cons:
  "image_loop http write_ok p (img # imgs) =
     and_then (download_cover_art http write_ok (img_url img) (image_prefix p img))
       (and_then ([Sleep 1], None) (image_loop http write_ok p imgs))"
  by (simp add: image_prefix_def)

lemma download_saved:
  "serves http url ext bytes \<Longrightarrow> write_ok (with_extension prefix ext) \<Longrightarrow>
   download_cover_art http write_ok url prefix =
     ([Http_get url, Write_file (with_extension prefix ext) bytes], None)"
  by (auto simp: serves_def download_cover_art_def split: option.splits)

lemma strip_trailing_sep_one:
  "q \<noteq> [] \<Longrightarrow> last q \<noteq> CHR ''/'' \<Longrightarrow> strip_trailing_sep (q @ ''/'') = q"
  by (cases q rule: rev_cases) (auto simp: strip_trailing_sep_def)

lemma split_last_sep_parent:
  assumes "d = [] \<or> last d = CHR ''/''" and "CHR ''/'' \<notin> set name"
    and "strip_trailing_sep p = d @ name"
  shows "split_last_sep p = (d, name)"
proof -
  have d: "takeWhile (\<lambda>c. c \<noteq> CHR ''/'') (rev d) = []"
    using assms(1) by (cases d rule: rev_cases) auto
  have "takeWhile (\<lambda>c. c \<noteq> CHR ''/'') (rev name @ rev d) = rev name @ []"
    unfolding d [symmetric] by (rule takeWhile_append2) (use assms(2) in auto)
  then have n: "rev (takeWhile (\<lambda>c. c \<noteq> CHR ''/'') (rev (d @ name))) = name"
    by simp
  have "take (length (d @ name) - length name) (d @ name) = d"
    by simp
  then show ?thesis
    using assms(3) n by (simp only: split_last_sep_def Let_def)
qed

lemma path_join_parent:
  assumes "name \<noteq> []" and "hd name \<noteq> CHR ''/''"
  obtains d where "path_join p name = d @ name" and "d = [] \<or> last d = CHR ''/''"
  using assms by (cases "p = []"; cases "last p = CHR ''/''") (auto simp: path_join_def)

lemma with_extension_dir:
  assumes "d = [] \<or> last d = CHR ''/''"
  shows "with_extension (d @ ''Cover'' @ ''/'') ext = d @ ''Cover'' @ (if ext = [] then [] else ''.'' @ ext)"
proof -
  have "strip_trailing_sep ((d @ ''Cover'') @ ''/'') = d @ ''Cover''"
    by (rule strip_trailing_sep_one) simp_all
  then have strip: "strip_trailing_sep (d @ ''Cover'' @ ''/'') = d @ ''Cover''"
    by (simp only: append_assoc)
  have "split_last_sep (d @ ''Cover'' @ ''/'') = (d, ''Cover'')"
    by (rule split_last_sep_parent [OF assms]) (use strip in simp_all)
  moreover have "split_at_dot ''Cover'' = (''Cover'', None)"
    by (simp add: split_at_dot_def)
  ultimately show ?thesis
    by (simp add: with_extension_def file_name_def)
qed

lemma image_prefix_untyped:
  assumes "img_types img = []"
  obtains d where "path_join out ''Cover'' = d @ ''Cover''" and "d = [] \<or> last d = CHR ''/''"
    and "image_prefix (path_join out ''Cover'') img = d @ ''Cover'' @ ''/''"
proof -
  obtain d where d: "path_join out ''Cover'' = d @ ''Cover''" and sep: "d = [] \<or> last d = CHR ''/''"
    using path_join_parent [of "''Cover''" out] by auto
  have "image_prefix (path_join out ''Cover'') img = path_join (d @ ''Cover'') []"
    using assms by (simp add: image_prefix_def d)
  also have "\<dots> = d @ ''Cover'' @ ''/''"
    by (simp add: path_join_def)
  finally have "image_prefix (path_join out ''Cover'') img = d @ ''Cover'' @ ''/''" .
  with d sep that show ?thesis by blast
qed

subsection \<open>Properties\<close>

text \<open>
  C13. Pacing and isolation: when every download either gets a non-success status
  (reported and skipped) or succeeds, the image loop never panics, fetches every image in
  order, and sleeps one second after each download, the last one included.
\<close>

theorem image_loop_paced:
  assumes "list_all (\<lambda>img. download_ok http write_ok (img_url img) (image_prefix p img)) imgs"
  shows "snd (image_loop http write_ok p imgs) = None
         \<and> filter is_net_or_sleep (fst (image_loop http write_ok p imgs))
             = concat (map (\<lambda>img. [Http_get (img_url img), Sleep 1]) imgs)"
  using assms
proof (induction imgs)
  case Nil
  then show ?case by simp
next
  case (Cons img imgs)
  obtain e where d: "download_cover_art http write_ok (img_url img) (image_prefix p img) = (e, None)"
    and f: "filter is_net_or_sleep e = [Http_get (img_url img)]"
    using download_ok_run [of http write_ok "img_url img" "image_prefix p img"] Cons.prems
    by (cases "download_cover_art http write_ok (img_url img) (image_prefix p img)") auto
  have s: "is_net_or_sleep (Sleep n)" for n by (simp add: is_net_or_sleep_def)
  have "image_loop http write_ok p (img # imgs) =
      and_then (e, None) (and_then ([Sleep 1], None) (image_loop http write_ok p imgs))"
    by (simp only: image_loop_Cons d)
  then show ?case
    using Cons.IH Cons.prems by (simp add: f s)
qed

text \<open>
  C14. A request that fails at the network level panics in \<open>get(url).unwrap()\<close> and
  ends the run: the images after it are never fetched (the spec calls artwork errors
  recoverable and isolated per image).
\<close>

theorem image_loop_network_error:
  assumes "http (img_url img) = None"
  shows "image_loop http write_ok p (img # imgs) =
           ([Http_get (img_url img)], Some (Unwrap_Err ''reqwest::blocking::get''))"
  using assms by (simp add: image_loop_Cons download_no_response)

text \<open>
  C18. An image whose type list is empty gets the file stem \<open>""\<close>: its prefix is
  \<open>Cover/\<close>, and \<open>with_extension\<close> on it gives \<open>Cover.<ext>\<close>, so for any output
  directory the image is written next to the \<open>Cover\<close> directory instead of inside it.
\<close>

theorem untyped_image_path:
  assumes "img_types img = []" and "serves http (img_url img) ext bytes"
    and "write_ok (path_join out ''Cover'' @ (if ext = [] then [] else ''.'' @ ext))"
  shows "image_loop http write_ok (path_join out ''Cover'') (img # imgs) =
           and_then ([Http_get (img_url img),
                      Write_file (path_join out ''Cover'' @ (if ext = [] then [] else ''.'' @ ext)) bytes,
                      Sleep 1], None)
             (image_loop http write_ok (path_join out ''Cover'') imgs)"
proof -
  obtain d where d: "path_join out ''Cover'' = d @ ''Cover''" and sep: "d = [] \<or> last d = CHR ''/''"
    and pre: "image_prefix (path_join out ''Cover'') img = d @ ''Cover'' @ ''/''"
    using image_prefix_untyped [OF assms(1)] by blast
  have target: "with_extension (image_prefix (path_join out ''Cover'') img) ext
      = path_join out ''Cover'' @ (if ext = [] then [] else ''.'' @ ext)"
  proof -
    have "with_extension (image_prefix (path_join out ''Cover'') img) ext
        = with_extension (d @ ''Cover'' @ ''/'') ext"
      by (simp only: pre)
    also have "\<dots> = d @ ''Cover'' @ (if ext = [] then [] else ''.'' @ ext)"
      by (rule with_extension_dir [OF sep])
    finally show ?thesis
      by (simp add: d)
  qed
  show ?thesis
    using download_saved [OF assms(2), of write_ok "image_prefix (path_join out ''Cover'') img"] assms(3)
    unfolding image_loop_Cons by (simp add: target)
qed

text \<open>
  C19. Two consecutive images with the same type list whose downloads succeed with the
  same extension are written to the same file: the second write replaces the first.
\<close>

theorem same_types_overwrite:
  assumes "img_types img2 = img_types img1"
    and "serves http (img_url img1) ext b1" and "serves http (img_url img2) ext b2"
    and "write_ok (with_extension (image_prefix p img1) ext)"
  shows "image_loop http write_ok p (img1 # img2 # imgs) =
           and_then ([Http_get (img_url img1), Write_file (with_extension (image_prefix p img1) ext) b1, Sleep 1,
                      Http_get (img_url img2), Write_file (with_extension (image_prefix p img1) ext) b2, Sleep 1], None)
             (image_loop http write_ok p imgs)"
proof -
  have same: "image_prefix p img2 = image_prefix p img1"
    using assms(1) by (simp add: image_prefix_def)
  show ?thesis
    using download_saved [of http "img_url img1" ext b1 write_ok "image_prefix p img1", OF assms(2,4)]
      download_saved [of http "img_url img2" ext b2 write_ok "image_prefix p img2", OF assms(3)] assms(4)
    unfolding image_loop_Cons by (simp add: same)
qed

text \<open>
  C22. A successful response whose final URL path has no extension panics in
  \<open>extension().unwrap()\<close>: nothing is written and the images after it are never fetched.
\<close>

theorem image_loop_no_extension:
  assumes "http (img_url img) = Some resp" and "is_success (resp_status resp)"
    and "extension (resp_url_path resp) = None"
  shows "image_loop http write_ok p (img # imgs) =
           ([Http_get (img_url img)], Some (Unwrap_None ''extension''))"
  unfolding image_loop_Cons by (simp add: download_no_extension [of http "img_url img" resp, OF assms])

end
