(* ===== verification/Main_Run.thy ===== *)
theory Main_Run
  imports Artwork
begin

text \<open>
  The whole of \<open>main\<close> (src/src/main.rs, lines 58--170) as one trace of effects: create
  the output directory, set the user agent, fetch the release (its \<open>unwrap\<close> panics on a
  failed fetch), write the cue sheets, then, when \<open>--cover-art\<close> is given, the cover-art
  step.  The environment holds the results of the external calls: the fetched release, the
  cover-art response, the HTTP oracle and which directories and files can be written.
  The parsed command line is the record \<open>args\<close> (lines 15--25); parsing itself is
  \<open>clap\<close>'s and not modelled.
\<close>

record args =
  args_release_id :: string
  args_cover_art :: bool
  args_out_dir :: string

record env =
  env_release :: "release option"
  env_coverart :: "coverart_response option"
  env_http :: "string \<Rightarrow> http_response option"
  env_dir_ok :: "string \<Rightarrow> bool"
  env_write_ok :: "string \<Rightarrow> bool"

text \<open>Line 12.\<close>

definition user_agent :: string where
  "user_agent = ''musicbrainz_cuesheet/0.1.0 (alpha testing)''"

text \<open>Lines 58--170.\<close>

definition main_run :: "args \<Rightarrow> env \<Rightarrow> run" where
  "main_run a e =
     and_then
       (if env_dir_ok e (args_out_dir a) then ([Create_dir_all (args_out_dir a)], None)
        else ([], Some (Unwrap_Err ''fs::create_dir_all'')))
       (and_then ([Set_user_agent user_agent, Fetch_release (args_release_id a)], None)
          (case env_release e of
             None \<Rightarrow> ([], Some (Unwrap_Err ''Release::fetch''))
           | Some release \<Rightarrow>
               and_then (write_cuesheets (env_write_ok e) (args_out_dir a) release)
                 (if args_cover_art a
                  then cover_art_step (env_coverart e) (env_http e) (env_dir_ok e) (env_write_ok e)
                         (args_release_id a) (args_out_dir a)
                  else ([], None))))"

definition prologue :: "args \<Rightarrow> effect list" where
  "prologue a = [Create_dir_all (args_out_dir a), Set_user_agent user_agent, Fetch_release (args_release_id a)]"

subsection \<open>Helper lemmas\<close>

lemma main_run_fetched:
  "env_dir_ok e (args_out_dir a) \<Longrightarrow> env_release e = Some r \<Longrightarrow>
   main_run a e =
     and_then (prologue a, None)
       (and_then (write_cuesheets (env_write_ok e) (args_out_dir a) r)
          (if args_cover_art a
           then cover_art_step (env_coverart e) (env_http e) (env_dir_ok e) (env_write_ok e)
                  (args_release_id a) (args_out_dir a)
           else ([], None)))"
  by (simp add: main_run_def prologue_def)

subsection \<open>Properties\<close>

text \<open>
  C15. Ordering: once the release is fetched and the cue sheets are written, the trace is
  the prologue, then every cue-sheet write, then whatever the cover-art step does; without
  \<open>--cover-art\<close> nothing follows and the run ends normally.  No artwork effect comes
  before or between the cue-sheet writes.
\<close>

theorem main_run_cuesheets_first:
  assumes "env_dir_ok e (args_out_dir a)" and "env_release e = Some r"
    and "write_cuesheets (env_write_ok e) (args_out_dir a) r = (effs, None)"
  shows "\<exists>tail. fst (main_run a e) = prologue a @ effs @ tail
                \<and> (\<not> args_cover_art a \<longrightarrow> tail = [] \<and> snd (main_run a e) = None)"
  using assms by (simp add: main_run_fetched)

text \<open>
  C16. A failed release fetch panics right after the prologue: no cue sheet is written.
\<close>

theorem main_run_fetch_fails:
  assumes "env_dir_ok e (args_out_dir a)" and "env_release e = None"
  shows "main_run a e = (prologue a, Some (Unwrap_Err ''Release::fetch''))"
  using assms by (simp add: main_run_def prologue_def)

text \<open>
  C17. A failed cover-art request is reported and skipped: after the cue sheets the run
  fetches, prints \<open>Failed to download cover art\<close> and ends normally.
\<close>

theorem main_run_coverart_unavailable:
  assumes "env_dir_ok e (args_out_dir a)" and "env_release e = Some r"
    and "write_cuesheets (env_write_ok e) (args_out_dir a) r = (effs, None)"
    and "args_cover_art a" and "env_coverart e = None"
  shows "main_run a e =
           (prologue a @ effs @ [Fetch_coverart (args_release_id a), Eprintln ''Failed to download cover art''], None)"
  using assms by (simp add: main_run_fetched cover_art_step_def)

end
