(* ===== verification/Spec2Isabelle.thy ===== *)
theory Spec2Isabelle
  imports Main_Run
begin

text \<open>
  \<^bold>\<open>A verification development of musicbrainz-cuesheet.\<close>

  The program (one file, src/src/main.rs) fetches a release from the MusicBrainz catalog,
  writes one cue sheet per medium of the release into an output directory, and optionally
  downloads the cover art.  Its parts, leaf first:
  \<^item> the timecode converter \<open>millisecond_to_mmssff\<close> (lines 34--45), a pure function
    from a \<open>u32\<close> count of milliseconds to \<open>MM:SS:FF\<close> with 75 frames to the second;
  \<^item> the metadata normalizer: \<open>join_artists\<close> (lines 27--32) and the release header
    built in \<open>main\<close> (lines 73--110): performer, genres, date, labels, release id and the
    fixed \<open>FILE\<close> line;
  \<^item> the cue-sheet builder (lines 112--142): per medium, the medium identifier, the
    \<open>TITLE\<close> line and a \<open>TRACK\<close> block per track, with the start offset carried as a
    \<open>u32\<close> running sum of the track lengths;
  \<^item> the driver \<open>main\<close> (lines 58--170): argument parsing, directory creation, the
    fetch, the loop writing \<open>out_dir/<medium id>.cue\<close> per medium (lines 112--147),
    and the cover-art step \<open>download_cover_art\<close> (lines 47--56, 149--169).
  Everything runs in sequence; every \<open>unwrap()\<close> is a panic that ends the process.

  \<^bold>\<open>Theories.\<close>
  \<^item> \<open>Cue_Prelude\<close>: Rust's formatting as used by the program (\<open>{}\<close> and \<open>{:0w}\<close> on
    integers as \<open>dec_string\<close> and \<open>zero_pad\<close>, \<open>{:+05}\<close>, \<open>writeln!\<close>, \<open>join\<close>,
    \<open>unwrap_or_default\<close>), the \<open>panic\<close> type, the decimal reader \<open>parse_dec\<close> with the
    round trip \<open>parse_dec (zero_pad w n) = Some n\<close>, and the \<open>unat\<close> of a word sum
    (exact below \<open>2^32\<close>, modulo \<open>2^32\<close> in general).
  \<^item> \<open>Timecode\<close>: \<open>frame_round\<close>, \<open>mmssff_fields\<close>, \<open>millisecond_to_mmssff\<close>.  The
    source's \<open>f64\<close> frame computation is modelled by the integer formula
    \<open>(3 p + 20) div 40\<close> for \<open>p = ms mod 1000\<close>; C2 proves it equal to the exact
    rounding of \<open>p / (1000/75)\<close>, and the agreement of the \<open>f64\<close> quotient with the exact
    one was checked for all 1000 values of \<open>p\<close> (there is no IEEE model in the kernel).
    C3--C6: field bounds, the frame field reaching 75, the timecode as the nearest CD
    frame, and the round trip through a \<open>MM:SS:FF\<close> reader.
  \<^item> \<open>Metadata\<close>: records for the fetched entities (\<open>artist_credit\<close>, \<open>genre\<close>,
    \<open>naive_date\<close>, \<open>release_group\<close>, \<open>label\<close>, \<open>label_info\<close>, \<open>track\<close>, \<open>medium\<close>,
    \<open>release\<close>: the fields of the \<open>musicbrainz_rs\<close> types that the code reads), chrono's
    \<open>ordinal\<close> and \<open>Display\<close> of dates, and the header blocks in code order
    (\<open>performer_block\<close>, \<open>release_group_block\<close>, \<open>label_loop\<close>/\<open>label_block\<close>,
    \<open>release_header\<close>).  C7 refines the accumulating code to the spec's list of emit-if
    lines \<open>header_lines\<close>; C8 is the January-1st date rule.
  \<^item> \<open>Cuesheet\<close>: \<open>medium_id\<close>, \<open>medium_title_line\<close>, \<open>track_loop\<close>,
    \<open>medium_cuesheet\<close>.  C1 characterises a medium's cue sheet completely: blocks at the
    prefix sums of the lengths (\<open>running\<close>), or the \<open>track.length\<close> panic.  C9 cuts the
    loop's output at the \<open>k\<close>-th track and gives that track's block and offset, C10 the
    bounds of the offset (modulo \<open>2^32\<close>, exact without overflow); C21 shows that the
    medium identifier, hence the file name, is determined by and determines the pair
    (format, position).
  \<^item> \<open>Program\<close>: the effect trace (\<open>effect\<close>), Unix \<open>path_join\<close>, \<open>media_loop\<close> and
    \<open>write_cuesheets\<close>, with a file-system oracle \<open>write_ok\<close> for the writes that
    fail.  C11: one file per medium, in order; C12 and C20: a medium that fails, on a
    missing length or on its write, ends the run and leaves the files of the media before
    it on disk.
  \<^item> \<open>Artwork\<close>: the HTTP response, \<open>CoverartResponse\<close> and image records, Rust's
    \<open>Path::extension\<close> and \<open>with_extension\<close> on Unix paths, the sequencing of runs
    \<open>and_then\<close> (a panic stops the rest), \<open>download_cover_art\<close>, the image loop with
    its one-second sleeps, and \<open>cover_art_step\<close>.  C13: with no panicking download,
    every image is fetched in order and followed by one sleep; C14 and C22: a failed
    request, or a response without an extension, panics and stops the loop; C18: an
    image without types is written to \<open>Cover.<ext>\<close> beside the \<open>Cover\<close> directory,
    whatever the output directory; C19: images with equal type lists write the same file.
    The path lemmas (\<open>split_last_sep_parent\<close>, \<open>path_join_parent\<close>,
    \<open>with_extension_dir\<close>) carry these for every output directory.
  \<^item> \<open>Main_Run\<close>: \<open>args\<close>, the environment of external results \<open>env\<close>, and
    \<open>main_run\<close>, the whole program as one trace.  C15: the cue sheets are written right
    after the prologue and before any artwork effect; C16: a failed fetch writes nothing;
    C17: a failed cover-art request is reported and the run ends normally.
  \<^item> This theory: example data (tracks, media, a release, an HTTP oracle) and, for every
    property with hypotheses, a witness that applies it to the examples, with the
    hypotheses discharged by evaluation.

  \<^bold>\<open>Choices.\<close>  Strings are \<open>char list\<close> with one \<open>char\<close> per UTF-8 byte; the program
  only concatenates them.  \<open>u32\<close> values are \<open>32 word\<close>; \<open>track_start += track_length\<close>
  wraps as in a release build (a debug build would panic instead, beyond 49.7 days of
  audio).  No loop needs fuel: every loop runs over a finite list and is structural
  recursion.  The float-to-integer cast \<open>as u32\<close> is the identity here since the frame
  value is at most 75.

  \<^bold>\<open>Not modelled.\<close>  Argument parsing (\<open>clap\<close>), the HTTP client and the catalog
  service are external: the parsed arguments are a record, and each external call is
  represented by its result in \<open>env\<close> (the fetched release, the cover-art response, an
  HTTP oracle, which directories and files can be written).  The status line's text is
  taken from the response as \<open>reqwest\<close> prints it, not recomputed from the code.
  Writes are atomic effects; a crash in the middle of a write is outside the model.

  \<^bold>\<open>Findings.\<close>  The frame field is 75 for \<open>ms mod 1000 \<ge> 994\<close> (C4) where the spec
  wants a carry.  From the complete characterisations C1 and C7: the last track's length
  is required too; the \<open>TITLE\<close> line comes before the release header, not after it; an
  empty track credit prints \<open>PERFORMER ""\<close>; duplicate labels are all printed; an empty
  genre list prints \<open>REM GENRE\<close> with nothing after it.  A run that fails on a later
  medium leaves the earlier cue sheets written (C12, C20); media without format and
  position share one file name (C21); a network failure or a missing extension on one
  image panics and stops the remaining downloads, where the spec calls artwork errors
  recoverable (C14, C22); the pacing sleep also follows the last download (C13); an
  image without types is saved as \<open>Cover.<ext>\<close> outside the \<open>Cover\<close> directory
  (C18), and images with equal type lists overwrite each other (C19).
\<close>

subsection \<open>Example data\<close>

definition ex_artist :: artist_credit where
  "ex_artist = \<lparr>credit_name = ''Artist'', credit_joinphrase = None\<rparr>"

definition ex_track :: "u32 \<Rightarrow> string \<Rightarrow> u32 option \<Rightarrow> track" where
  "ex_track p t l = \<lparr>track_position = p, track_title = t, recording_artist_credit = None, track_length = l\<rparr>"

definition ex_tracks :: "track list" where
  "ex_tracks = [ex_track 1 ''One'' (Some 180000), ex_track 2 ''Two'' (Some 200000)]"

definition ex_cd :: "u32 \<Rightarrow> track list \<Rightarrow> medium" where
  "ex_cd p ts = \<lparr>medium_format = Some ''CD'', medium_position = Some p, medium_title = None, medium_tracks = Some ts\<rparr>"

definition ex_album :: "medium list \<Rightarrow> release" where
  "ex_album ms =
     \<lparr>release_id = ''id1'', release_title = ''Album'', release_artist_credit = Some [ex_artist],
      rel_group = None, label_info = None, media = Some ms\<rparr>"

definition ex_medium :: medium where
  "ex_medium = ex_cd 1 [ex_track 1 ''One'' (Some 180000)]"

text \<open>An HTTP oracle: \<open>bad\<close> fails at the network level, \<open>noext\<close> redirects to a path
  without an extension, every other URL succeeds with a JPEG whose body is the URL.\<close>

definition ex_http :: "string \<Rightarrow> http_response option" where
  "ex_http u =
     (if u = ''bad'' then None
      else Some \<lparr>resp_status = 200, resp_status_display = ''200 OK'',
                 resp_url_path = (if u = ''noext'' then ''/img/1'' else ''/img/1.jpg''), resp_body = Some u\<rparr>)"

definition ex_env :: "release option \<Rightarrow> coverart_response option \<Rightarrow> env" where
  "ex_env r c =
     \<lparr>env_release = r, env_coverart = c, env_http = ex_http, env_dir_ok = (\<lambda>_. True),
      env_write_ok = (\<lambda>_. True)\<rparr>"

definition ex_args :: "bool \<Rightarrow> args" where
  "ex_args b = \<lparr>args_release_id = ''id1'', args_cover_art = b, args_out_dir = ''out''\<rparr>"

subsection \<open>Evaluation helpers\<close>

lemmas example_defs = ex_artist_def ex_track_def ex_cd_def ex_album_def

lemma write_cuesheets_ex_album:
  "write_cuesheets w out (ex_album ms) =
     media_loop w out (release_header (ex_album ms)) (release_title (ex_album ms)) (1 < length ms) ms"
  by (simp add: write_cuesheets_def ex_album_def Let_def)

lemma write_cuesheets_example:
  assumes "list_all (medium_ok w out) ms"
  shows "write_cuesheets w out (ex_album ms) = (cue_writes out (ex_album ms) (1 < length ms) ms, None)"
proof -
  have "write_cuesheets w out (ex_album ms) =
      media_loop w out (release_header (ex_album ms)) (release_title (ex_album ms)) (1 < length ms) ms"
    by (rule write_cuesheets_ex_album)
  also have "\<dots> = (cue_writes out (ex_album ms) (1 < length ms) ms, None)"
    by (rule media_loop_all_ok [OF assms])
  finally show ?thesis .
qed

lemmas ok_simps = medium_ok_def all_lengths_def medium_track_list_def ex_cd_def ex_track_def

lemma zero_pad_1: "zero_pad 2 (Suc 0) = ''01''"
  by code_simp

lemma zero_pad_2: "zero_pad 2 2 = ''02''"
  by code_simp

lemmas cue_path_eval = cue_path_def path_join_def medium_id_def str_or_default_def u32_or_default_def
  ex_cd_def zero_pad_1 zero_pad_2

lemma ex_tracks_ok: "all_lengths ex_tracks"
  by (simp add: ex_tracks_def ex_track_def all_lengths_def)

lemma ex_tracks_length: "1 < length ex_tracks"
  by (simp add: ex_tracks_def)

subsection \<open>Witnesses: the cue sheets\<close>

theorem release_header_refines_witness:
  "release_header (ex_album []) = unlines (header_lines (ex_album []))"
  by (rule release_header_refines)

theorem index_offset_kth_witness:
  "all_lengths ex_tracks \<and> 1 < length ex_tracks
   \<and> (\<exists>pre rest. track_loop [] 0 (take 1 ex_tracks) = Inr pre
        \<and> track_loop [] (sum_list (take (Suc 1) (lengths ex_tracks))) (drop (Suc 1) ex_tracks) = Inr rest
        \<and> track_loop [] 0 ex_tracks
            = Inr (pre @ unlines (track_block (ex_tracks ! 1) (sum_list (take 1 (lengths ex_tracks)))) @ rest))"
  by (rule conjI [OF ex_tracks_ok conjI [OF ex_tracks_length index_offset_kth [OF ex_tracks_ok ex_tracks_length]]])

theorem running_offset_exact_witness:
  "all_lengths ex_tracks \<and> 1 < length ex_tracks
   \<and> (\<exists>pre rest off. track_loop [] 0 ex_tracks = Inr (pre @ unlines (track_block (ex_tracks ! 1) off) @ rest)
        \<and> track_loop [] 0 (take 1 ex_tracks) = Inr pre
        \<and> unat off = sum_list (map unat (take 1 (lengths ex_tracks))) mod 2 ^ 32
        \<and> (sum_list (map unat (lengths ex_tracks)) < 2 ^ 32
           \<longrightarrow> unat off = sum_list (map unat (take 1 (lengths ex_tracks)))))"
  by (rule conjI [OF ex_tracks_ok conjI [OF ex_tracks_length running_offset_exact [OF ex_tracks_ok ex_tracks_length]]])

theorem write_cuesheets_all_media_witness:
  "media (ex_album [ex_cd 1 [ex_track 1 ''One'' (Some 180000)]]) = Some [ex_cd 1 [ex_track 1 ''One'' (Some 180000)]]
   \<and> list_all (medium_ok (\<lambda>_. True) ''out'') [ex_cd 1 [ex_track 1 ''One'' (Some 180000)]]
   \<and> write_cuesheets (\<lambda>_. True) ''out'' (ex_album [ex_cd 1 [ex_track 1 ''One'' (Some 180000)]])
       = (cue_writes ''out'' (ex_album [ex_cd 1 [ex_track 1 ''One'' (Some 180000)]]) False
            [ex_cd 1 [ex_track 1 ''One'' (Some 180000)]], None)"
proof -
  have m: "media (ex_album [ex_cd 1 [ex_track 1 ''One'' (Some 180000)]]) = Some [ex_cd 1 [ex_track 1 ''One'' (Some 180000)]]"
    by (simp add: ex_album_def)
  have ok: "list_all (medium_ok (\<lambda>_. True) ''out'') [ex_cd 1 [ex_track 1 ''One'' (Some 180000)]]"
    by (simp add: ok_simps)
  show ?thesis
    using write_cuesheets_all_media [OF m ok] m ok by simp
qed

theorem write_cuesheets_partial_witness:
  "media (ex_album [ex_cd 1 [ex_track 1 ''One'' (Some 180000)], ex_cd 2 [ex_track 1 ''Two'' None]])
     = Some [ex_cd 1 [ex_track 1 ''One'' (Some 180000)], ex_cd 2 [ex_track 1 ''Two'' None]]
   \<and> 1 < length [ex_cd 1 [ex_track 1 ''One'' (Some 180000)], ex_cd 2 [ex_track 1 ''Two'' None]]
   \<and> list_all (medium_ok (\<lambda>_. True) ''out'') (take 1 [ex_cd 1 [ex_track 1 ''One'' (Some 180000)], ex_cd 2 [ex_track 1 ''Two'' None]])
   \<and> \<not> all_lengths (medium_track_list ([ex_cd 1 [ex_track 1 ''One'' (Some 180000)], ex_cd 2 [ex_track 1 ''Two'' None]] ! 1))
   \<and> write_cuesheets (\<lambda>_. True) ''out''
         (ex_album [ex_cd 1 [ex_track 1 ''One'' (Some 180000)], ex_cd 2 [ex_track 1 ''Two'' None]])
       = (cue_writes ''out'' (ex_album [ex_cd 1 [ex_track 1 ''One'' (Some 180000)], ex_cd 2 [ex_track 1 ''Two'' None]]) True
            (take 1 [ex_cd 1 [ex_track 1 ''One'' (Some 180000)], ex_cd 2 [ex_track 1 ''Two'' None]]),
          Some (Unwrap_None ''track.length''))"
proof -
  have m: "media (ex_album [ex_cd 1 [ex_track 1 ''One'' (Some 180000)], ex_cd 2 [ex_track 1 ''Two'' None]])
     = Some [ex_cd 1 [ex_track 1 ''One'' (Some 180000)], ex_cd 2 [ex_track 1 ''Two'' None]]"
    by (simp add: ex_album_def)
  have k: "1 < length [ex_cd 1 [ex_track 1 ''One'' (Some 180000)], ex_cd 2 [ex_track 1 ''Two'' None]]"
    by simp
  have ok: "list_all (medium_ok (\<lambda>_. True) ''out'') (take 1 [ex_cd 1 [ex_track 1 ''One'' (Some 180000)], ex_cd 2 [ex_track 1 ''Two'' None]])"
    by (simp add: ok_simps)
  have bad: "\<not> all_lengths (medium_track_list ([ex_cd 1 [ex_track 1 ''One'' (Some 180000)], ex_cd 2 [ex_track 1 ''Two'' None]] ! 1))"
    by (simp add: ok_simps)
  show ?thesis
    using write_cuesheets_partial [OF m k ok bad] m k ok bad by simp
qed

theorem write_cuesheets_write_fails_witness:
  "media (ex_album [ex_medium, ex_cd 2 [ex_track 1 ''Two'' (Some 200000)]])
     = Some [ex_medium, ex_cd 2 [ex_track 1 ''Two'' (Some 200000)]]
   \<and> 1 < length [ex_medium, ex_cd 2 [ex_track 1 ''Two'' (Some 200000)]]
   \<and> list_all (medium_ok (\<lambda>f. f \<noteq> ''out/CD 02.cue'') ''out'') (take 1 [ex_medium, ex_cd 2 [ex_track 1 ''Two'' (Some 200000)]])
   \<and> all_lengths (medium_track_list ([ex_medium, ex_cd 2 [ex_track 1 ''Two'' (Some 200000)]] ! 1))
   \<and> cue_path ''out'' ([ex_medium, ex_cd 2 [ex_track 1 ''Two'' (Some 200000)]] ! 1) = ''out/CD 02.cue''
   \<and> write_cuesheets (\<lambda>f. f \<noteq> ''out/CD 02.cue'') ''out'' (ex_album [ex_medium, ex_cd 2 [ex_track 1 ''Two'' (Some 200000)]])
       = (cue_writes ''out'' (ex_album [ex_medium, ex_cd 2 [ex_track 1 ''Two'' (Some 200000)]]) True [ex_medium],
          Some (Unwrap_Err ''fs::write''))"
proof -
  have m: "media (ex_album [ex_medium, ex_cd 2 [ex_track 1 ''Two'' (Some 200000)]])
     = Some [ex_medium, ex_cd 2 [ex_track 1 ''Two'' (Some 200000)]]"
    by (simp add: ex_album_def)
  have k: "1 < length [ex_medium, ex_cd 2 [ex_track 1 ''Two'' (Some 200000)]]"
    by simp
  have p1: "cue_path ''out'' ex_medium = ''out/CD 01.cue''"
    by (simp add: cue_path_eval ex_medium_def)
  have p2: "cue_path ''out'' ([ex_medium, ex_cd 2 [ex_track 1 ''Two'' (Some 200000)]] ! 1) = ''out/CD 02.cue''"
    by (simp add: cue_path_eval)
  have ok: "list_all (medium_ok (\<lambda>f. f \<noteq> ''out/CD 02.cue'') ''out'') (take 1 [ex_medium, ex_cd 2 [ex_track 1 ''Two'' (Some 200000)]])"
    using p1 by (simp add: ok_simps ex_medium_def)
  have all: "all_lengths (medium_track_list ([ex_medium, ex_cd 2 [ex_track 1 ''Two'' (Some 200000)]] ! 1))"
    by (simp add: ok_simps)
  have nw: "\<not> (\<lambda>f. f \<noteq> ''out/CD 02.cue'') (cue_path ''out'' ([ex_medium, ex_cd 2 [ex_track 1 ''Two'' (Some 200000)]] ! 1))"
    using p2 by simp
  show ?thesis
    using write_cuesheets_write_fails [OF m k ok all nw] m k ok all p2 by simp
qed

subsection \<open>Witnesses: the cover art\<close>

lemma ex_extension: "extension ''/img/1.jpg'' = Some ''jpg''"
  by code_simp

lemma ex_no_extension: "extension ''/img/1'' = None"
  by code_simp

lemma ex_with_extension_front: "with_extension (path_join ''out/Cover'' ''Front'') ''jpg'' = ''out/Cover/Front.jpg''"
  by code_simp

lemma ex_serves: "u \<noteq> ''bad'' \<Longrightarrow> u \<noteq> ''noext'' \<Longrightarrow> serves ex_http u ''jpg'' u"
  by (simp add: serves_def ex_http_def is_success_def ex_extension)

theorem image_loop_paced_witness:
  "list_all (\<lambda>img. download_ok ex_http (\<lambda>_. True) (img_url img) (image_prefix ''out/Cover'' img))
     [\<lparr>img_types = [''Front''], img_url = ''u1''\<rparr>]
   \<and> snd (image_loop ex_http (\<lambda>_. True) ''out/Cover'' [\<lparr>img_types = [''Front''], img_url = ''u1''\<rparr>]) = None
   \<and> filter is_net_or_sleep (fst (image_loop ex_http (\<lambda>_. True) ''out/Cover'' [\<lparr>img_types = [''Front''], img_url = ''u1''\<rparr>]))
       = [Http_get ''u1'', Sleep 1]"
proof -
  have ok: "list_all (\<lambda>img. download_ok ex_http (\<lambda>_. True) (img_url img) (image_prefix ''out/Cover'' img))
     [\<lparr>img_types = [''Front''], img_url = ''u1''\<rparr>]"
    by (simp add: download_ok_def ex_http_def is_success_def ex_extension)
  show ?thesis
    using image_loop_paced [OF ok] ok by simp
qed

theorem image_loop_network_error_witness:
  "ex_http (img_url \<lparr>img_types = [''Front''], img_url = ''bad''\<rparr>) = None
   \<and> image_loop ex_http (\<lambda>_. True) ''out/Cover'' [\<lparr>img_types = [''Front''], img_url = ''bad''\<rparr>]
       = ([Http_get ''bad''], Some (Unwrap_Err ''reqwest::blocking::get''))"
proof -
  have h: "ex_http (img_url \<lparr>img_types = [''Front''], img_url = ''bad''\<rparr>) = None"
    by (simp add: ex_http_def)
  show ?thesis
    using image_loop_network_error [of ex_http "\<lparr>img_types = [''Front''], img_url = ''bad''\<rparr>"
        "\<lambda>_. True" "''out/Cover''" "[]", OF h] h by simp
qed

theorem untyped_image_path_witness:
  "img_types \<lparr>img_types = [], img_url = ''u''\<rparr> = []
   \<and> serves ex_http (img_url \<lparr>img_types = [], img_url = ''u''\<rparr>) ''jpg'' ''u''
   \<and> ''out/Cover.jpg'' \<noteq> ''out/Cover''
   \<and> image_loop ex_http (\<lambda>f. f \<noteq> ''out/Cover'') ''out/Cover'' [\<lparr>img_types = [], img_url = ''u''\<rparr>]
       = ([Http_get ''u'', Write_file ''out/Cover.jpg'' ''u'', Sleep 1], None)"
proof -
  have t: "img_types \<lparr>img_types = [], img_url = ''u''\<rparr> = []"
    by simp
  have s: "serves ex_http (img_url \<lparr>img_types = [], img_url = ''u''\<rparr>) ''jpg'' ''u''"
    by (simp add: ex_serves)
  have j: "path_join ''out'' ''Cover'' = ''out/Cover''"
    by (simp add: path_join_def)
  have w: "(\<lambda>f. f \<noteq> ''out/Cover'') (path_join ''out'' ''Cover'' @ (if ''jpg'' = [] then [] else ''.'' @ ''jpg''))"
    by (simp add: j)
  show ?thesis
    using untyped_image_path [of "\<lparr>img_types = [], img_url = ''u''\<rparr>" ex_http "''jpg''" "''u''"
        "\<lambda>f. f \<noteq> ''out/Cover''" "''out''" "[]", OF t s w] t s by (simp add: j)
qed

theorem same_types_overwrite_witness:
  "img_types \<lparr>img_types = [''Front''], img_url = ''u2''\<rparr> = img_types \<lparr>img_types = [''Front''], img_url = ''u1''\<rparr>
   \<and> serves ex_http ''u1'' ''jpg'' ''u1'' \<and> serves ex_http ''u2'' ''jpg'' ''u2''
   \<and> image_loop ex_http (\<lambda>_. True) ''out/Cover''
       [\<lparr>img_types = [''Front''], img_url = ''u1''\<rparr>, \<lparr>img_types = [''Front''], img_url = ''u2''\<rparr>]
     = ([Http_get ''u1'', Write_file ''out/Cover/Front.jpg'' ''u1'', Sleep 1,
         Http_get ''u2'', Write_file ''out/Cover/Front.jpg'' ''u2'', Sleep 1], None)"
proof -
  have t: "img_types \<lparr>img_types = [''Front''], img_url = ''u2''\<rparr> = img_types \<lparr>img_types = [''Front''], img_url = ''u1''\<rparr>"
    by simp
  have s1: "serves ex_http (img_url \<lparr>img_types = [''Front''], img_url = ''u1''\<rparr>) ''jpg'' ''u1''"
    by (simp add: ex_serves)
  have s2: "serves ex_http (img_url \<lparr>img_types = [''Front''], img_url = ''u2''\<rparr>) ''jpg'' ''u2''"
    by (simp add: ex_serves)
  have w: "(\<lambda>_. True) (with_extension (image_prefix ''out/Cover'' \<lparr>img_types = [''Front''], img_url = ''u1''\<rparr>) ''jpg'')"
    by simp
  have p: "with_extension (image_prefix ''out/Cover'' \<lparr>img_types = [''Front''], img_url = ''u1''\<rparr>) ''jpg''
      = ''out/Cover/Front.jpg''"
    by (simp add: image_prefix_def ex_with_extension_front)
  show ?thesis
    using same_types_overwrite [of "\<lparr>img_types = [''Front''], img_url = ''u2''\<rparr>"
        "\<lparr>img_types = [''Front''], img_url = ''u1''\<rparr>" ex_http "''jpg''" "''u1''" "''u2''" "\<lambda>_. True"
        "''out/Cover''" "[]", OF t s1 s2 w] s1 s2 by (simp add: p)
qed

theorem image_loop_no_extension_witness:
  "ex_http (img_url \<lparr>img_types = [''Front''], img_url = ''noext''\<rparr>) = Some \<lparr>resp_status = 200,
      resp_status_display = ''200 OK'', resp_url_path = ''/img/1'', resp_body = Some ''noext''\<rparr>
   \<and> is_success 200 \<and> extension ''/img/1'' = None
   \<and> image_loop ex_http (\<lambda>_. True) ''out/Cover'' [\<lparr>img_types = [''Front''], img_url = ''noext''\<rparr>]
       = ([Http_get ''noext''], Some (Unwrap_None ''extension''))"
proof -
  have h: "ex_http (img_url \<lparr>img_types = [''Front''], img_url = ''noext''\<rparr>) = Some \<lparr>resp_status = 200,
      resp_status_display = ''200 OK'', resp_url_path = ''/img/1'', resp_body = Some ''noext''\<rparr>"
    by (simp add: ex_http_def)
  have s: "is_success (resp_status \<lparr>resp_status = 200,
      resp_status_display = ''200 OK'', resp_url_path = ''/img/1'', resp_body = Some ''noext''\<rparr>)"
    by (simp add: is_success_def)
  have e: "extension (resp_url_path \<lparr>resp_status = 200,
      resp_status_display = ''200 OK'', resp_url_path = ''/img/1'', resp_body = Some ''noext''\<rparr>) = None"
    by (simp add: ex_no_extension)
  show ?thesis
    using image_loop_no_extension [of ex_http "\<lparr>img_types = [''Front''], img_url = ''noext''\<rparr>"
        "\<lparr>resp_status = 200, resp_status_display = ''200 OK'', resp_url_path = ''/img/1'', resp_body = Some ''noext''\<rparr>"
        "\<lambda>_. True" "''out/Cover''" "[]", OF h s e] h s e by simp
qed

subsection \<open>The whole run\<close>

lemma ex_medium_ok: "list_all (medium_ok (\<lambda>_. True) ''out'') [ex_medium]"
  by (simp add: ok_simps ex_medium_def)

theorem main_run_cuesheets_first_witness:
  "env_dir_ok (ex_env (Some (ex_album [ex_medium])) None) (args_out_dir (ex_args False))
   \<and> env_release (ex_env (Some (ex_album [ex_medium])) None) = Some (ex_album [ex_medium])
   \<and> write_cuesheets (env_write_ok (ex_env (Some (ex_album [ex_medium])) None)) (args_out_dir (ex_args False))
         (ex_album [ex_medium]) = (cue_writes ''out'' (ex_album [ex_medium]) False [ex_medium], None)
   \<and> (\<exists>tail. fst (main_run (ex_args False) (ex_env (Some (ex_album [ex_medium])) None))
              = prologue (ex_args False) @ cue_writes ''out'' (ex_album [ex_medium]) False [ex_medium] @ tail
            \<and> (\<not> args_cover_art (ex_args False) \<longrightarrow> tail = []
                 \<and> snd (main_run (ex_args False) (ex_env (Some (ex_album [ex_medium])) None)) = None))"
proof -
  have d: "env_dir_ok (ex_env (Some (ex_album [ex_medium])) None) (args_out_dir (ex_args False))"
    by (simp add: ex_env_def)
  have r: "env_release (ex_env (Some (ex_album [ex_medium])) None) = Some (ex_album [ex_medium])"
    by (simp add: ex_env_def)
  have w: "write_cuesheets (env_write_ok (ex_env (Some (ex_album [ex_medium])) None)) (args_out_dir (ex_args False))
         (ex_album [ex_medium]) = (cue_writes ''out'' (ex_album [ex_medium]) False [ex_medium], None)"
    using write_cuesheets_example [OF ex_medium_ok] by (simp add: ex_env_def ex_args_def)
  show ?thesis
    using main_run_cuesheets_first [OF d r w] d r w by simp
qed

theorem main_run_fetch_fails_witness:
  "env_dir_ok (ex_env None None) (args_out_dir (ex_args False)) \<and> env_release (ex_env None None) = None
   \<and> main_run (ex_args False) (ex_env None None) = (prologue (ex_args False), Some (Unwrap_Err ''Release::fetch''))"
proof -
  have d: "env_dir_ok (ex_env None None) (args_out_dir (ex_args False))" by (simp add: ex_env_def)
  have r: "env_release (ex_env None None) = None" by (simp add: ex_env_def)
  show ?thesis using main_run_fetch_fails [OF d r] d r by simp
qed

theorem main_run_coverart_unavailable_witness:
  "env_dir_ok (ex_env (Some (ex_album [ex_medium])) None) (args_out_dir (ex_args True))
   \<and> env_release (ex_env (Some (ex_album [ex_medium])) None) = Some (ex_album [ex_medium])
   \<and> write_cuesheets (env_write_ok (ex_env (Some (ex_album [ex_medium])) None)) (args_out_dir (ex_args True))
         (ex_album [ex_medium]) = (cue_writes ''out'' (ex_album [ex_medium]) False [ex_medium], None)
   \<and> args_cover_art (ex_args True) \<and> env_coverart (ex_env (Some (ex_album [ex_medium])) None) = None
   \<and> main_run (ex_args True) (ex_env (Some (ex_album [ex_medium])) None)
       = (prologue (ex_args True) @ cue_writes ''out'' (ex_album [ex_medium]) False [ex_medium]
          @ [Fetch_coverart (args_release_id (ex_args True)), Eprintln ''Failed to download cover art''], None)"
proof -
  have d: "env_dir_ok (ex_env (Some (ex_album [ex_medium])) None) (args_out_dir (ex_args True))"
    by (simp add: ex_env_def)
  have r: "env_release (ex_env (Some (ex_album [ex_medium])) None) = Some (ex_album [ex_medium])"
    by (simp add: ex_env_def)
  have w: "write_cuesheets (env_write_ok (ex_env (Some (ex_album [ex_medium])) None)) (args_out_dir (ex_args True))
         (ex_album [ex_medium]) = (cue_writes ''out'' (ex_album [ex_medium]) False [ex_medium], None)"
    using write_cuesheets_example [OF ex_medium_ok] by (simp add: ex_env_def ex_args_def)
  have c: "args_cover_art (ex_args True)" by (simp add: ex_args_def)
  have n: "env_coverart (ex_env (Some (ex_album [ex_medium])) None) = None" by (simp add: ex_env_def)
  show ?thesis using main_run_coverart_unavailable [OF d r w c n] d r w c n by simp
qed

end
